theory Spec2Isabelle
  imports Complex_Main
begin

section \<open>Python values used by the image pipeline\<close>

text \<open>
  The development embeds \<^verbatim>\<open>src/utils.py\<close>. Python exceptions are values: a function that
  can raise returns \<open>exc + 'a\<close>, with \<open>Inl\<close> carrying the exception class and the text
  that \<^verbatim>\<open>str(e)\<close> yields. A \<^verbatim>\<open>try/except Exception\<close> block is a case distinction on such a
  result.

  Python floats are modelled by exact rationals (with the three special values a JSON
  document can denote), so rounding of IEEE doubles is abstracted; \<^verbatim>\<open>int(x)\<close> truncates
  towards zero. Strings are lists of 8-bit characters and the case mappings act on the
  ASCII letters.
\<close>

datatype exc = Exc (exc_class: string) (exc_msg: string)

datatype pynum = Num rat | PosInf | NegInf | NaN

definition trunc :: "rat \<Rightarrow> int" where
  "trunc q = (if 0 \<le> q then \<lfloor>q\<rfloor> else \<lceil>q\<rceil>)"

text \<open>\<^verbatim>\<open>int(x)\<close> of a float: a NaN raises ValueError, an infinity OverflowError.\<close>

fun py_int :: "pynum \<Rightarrow> exc + int" where
  "py_int (Num q) = Inr (trunc q)"
| "py_int NaN = Inl (Exc ''ValueError'' ''cannot convert float NaN to integer'')"
| "py_int PosInf = Inl (Exc ''OverflowError'' ''cannot convert float infinity to integer'')"
| "py_int NegInf = Inl (Exc ''OverflowError'' ''cannot convert float infinity to integer'')"

subsection \<open>Strings\<close>

definition ascii_upper :: string where
  "ascii_upper = ''ABCDEFGHIJKLMNOPQRSTUVWXYZ''"

definition ascii_lower :: string where
  "ascii_lower = ''abcdefghijklmnopqrstuvwxyz''"

definition lower_char :: "char \<Rightarrow> char" where
  "lower_char c = (case map_of (zip ascii_upper ascii_lower) c of Some d \<Rightarrow> d | None \<Rightarrow> c)"

definition upper_char :: "char \<Rightarrow> char" where
  "upper_char c = (case map_of (zip ascii_lower ascii_upper) c of Some d \<Rightarrow> d | None \<Rightarrow> c)"

definition is_cased :: "char \<Rightarrow> bool" where
  "is_cased c = (c \<in> set ascii_upper \<or> c \<in> set ascii_lower)"

text \<open>\<^verbatim>\<open>s.lower()\<close> and \<^verbatim>\<open>s.upper()\<close>.\<close>

definition lower :: "string \<Rightarrow> string" where
  "lower s = map lower_char s"

definition upper :: "string \<Rightarrow> string" where
  "upper s = map upper_char s"

text \<open>\<^verbatim>\<open>s.title()\<close>: a letter after a cased letter is lowered, any other is raised.\<close>

fun title_from :: "bool \<Rightarrow> string \<Rightarrow> string" where
  "title_from previous_is_cased [] = []"
| "title_from previous_is_cased (c # cs) =
     (if previous_is_cased then lower_char c else upper_char c) # title_from (is_cased c) cs"

definition title :: "string \<Rightarrow> string" where
  "title s = title_from False s"

text \<open>\<^verbatim>\<open>s.replace(a, b)\<close> for one-character strings \<open>a\<close> and \<open>b\<close>.\<close>

definition replace :: "char \<Rightarrow> char \<Rightarrow> string \<Rightarrow> string" where
  "replace a b s = map (\<lambda>c. if c = a then b else c) s"

text \<open>The characters that \<^verbatim>\<open>s.strip()\<close> removes, among the code points below 256.\<close>

definition whitespace :: "char list" where
  "whitespace = [CHR 0x09, CHR 0x0A, CHR 0x0B, CHR 0x0C, CHR 0x0D, CHR 0x1C, CHR 0x1D,
                 CHR 0x1E, CHR 0x1F, CHR 0x20, CHR 0x85, CHR 0xA0]"

definition strip :: "string \<Rightarrow> string" where
  "strip s = rev (dropWhile (\<lambda>c. c \<in> set whitespace)
                   (rev (dropWhile (\<lambda>c. c \<in> set whitespace) s)))"

definition startswith :: "string \<Rightarrow> string \<Rightarrow> bool" where
  "startswith s sub = (take (length sub) s = sub)"

text \<open>\<^verbatim>\<open>sub in s\<close>.\<close>

fun contains :: "string \<Rightarrow> string \<Rightarrow> bool" where
  "contains [] sub = (sub = [])"
| "contains (c # cs) sub = (startswith (c # cs) sub \<or> contains cs sub)"

text \<open>
  \<^verbatim>\<open>s.split(sep)\<close> for a separator that is not empty (both separators of the program are
  literals): \<open>acc\<close> holds the current piece, reversed.
\<close>

fun split_from :: "string \<Rightarrow> string \<Rightarrow> string \<Rightarrow> string list" where
  "split_from sep acc [] = [rev acc]"
| "split_from sep acc (c # cs) =
     (if startswith (c # cs) sep then rev acc # split_from sep [] (drop (length sep - 1) cs)
      else split_from sep (c # acc) cs)"

definition split :: "string \<Rightarrow> string \<Rightarrow> string list" where
  "split s sep = split_from sep [] s"

text \<open>\<^verbatim>\<open>xs[i]\<close> for an index that is not negative.\<close>

definition item :: "'a list \<Rightarrow> nat \<Rightarrow> exc + 'a" where
  "item xs i = (if i < length xs then Inr (xs ! i)
                else Inl (Exc ''IndexError'' ''list index out of range''))"

text \<open>\<^verbatim>\<open>str(n)\<close> for an integer.\<close>

fun str_nat :: "nat \<Rightarrow> string" where
  "str_nat n = (if n < 10 then [''0123456789'' ! n]
                else str_nat (n div 10) @ [''0123456789'' ! (n mod 10)])"

definition str_int :: "int \<Rightarrow> string" where
  "str_int i = (if i < 0 then CHR ''-'' # str_nat (nat (- i)) else str_nat (nat i))"

text \<open>\<^verbatim>\<open>repr(s)\<close> of a string, which is what \<^verbatim>\<open>str(e)\<close> shows of a KeyError's key.\<close>

definition printable :: "char \<Rightarrow> bool" where
  "printable c = (let n = (of_char c :: nat)
                  in (32 \<le> n \<and> n \<le> 126) \<or> (161 \<le> n \<and> n \<noteq> 173))"

definition hex2 :: "char \<Rightarrow> string" where
  "hex2 c = (let n = (of_char c :: nat)
             in [''0123456789abcdef'' ! (n div 16), ''0123456789abcdef'' ! (n mod 16)])"

definition repr_char :: "char \<Rightarrow> char \<Rightarrow> string" where
  "repr_char quote c =
     (if c = CHR 0x5C then [CHR 0x5C, CHR 0x5C]
      else if c = quote then [CHR 0x5C, quote]
      else if c = CHR 0x09 then [CHR 0x5C, CHR ''t'']
      else if c = CHR 0x0A then [CHR 0x5C, CHR ''n'']
      else if c = CHR 0x0D then [CHR 0x5C, CHR ''r'']
      else if printable c then [c]
      else [CHR 0x5C, CHR ''x''] @ hex2 c)"

definition repr :: "string \<Rightarrow> string" where
  "repr s = (let quote = (if CHR 0x27 \<in> set s \<and> CHR 0x22 \<notin> set s then CHR 0x22
                          else CHR 0x27)
             in quote # concat (map (repr_char quote) s) @ [quote])"

text \<open>\<^verbatim>\<open>os.path.join(a, b)\<close> on a POSIX system.\<close>

definition os_path_join :: "string \<Rightarrow> string \<Rightarrow> string" where
  "os_path_join a b =
     (if startswith b ''/'' then b
      else if a = [] \<or> last a = CHR ''/'' then a @ b
      else a @ ''/'' @ b)"

subsection \<open>Numbers\<close>

text \<open>\<^verbatim>\<open>a < b\<close> and \<^verbatim>\<open>a <= b\<close> on floats: every comparison with a NaN is false.\<close>

fun py_lt :: "pynum \<Rightarrow> pynum \<Rightarrow> bool" where
  "py_lt NaN b = False"
| "py_lt a NaN = False"
| "py_lt (Num a) (Num b) = (a < b)"
| "py_lt (Num a) PosInf = True"
| "py_lt (Num a) NegInf = False"
| "py_lt PosInf b = False"
| "py_lt NegInf (Num b) = True"
| "py_lt NegInf PosInf = True"
| "py_lt NegInf NegInf = False"

fun py_le :: "pynum \<Rightarrow> pynum \<Rightarrow> bool" where
  "py_le NaN b = False"
| "py_le a NaN = False"
| "py_le a b = (a = b \<or> py_lt a b)"

text \<open>
  \<^verbatim>\<open>min(a, b)\<close> and \<^verbatim>\<open>max(a, b)\<close> return the first argument unless the second is
  strictly smaller (larger).
\<close>

definition py_min :: "pynum \<Rightarrow> pynum \<Rightarrow> pynum" where
  "py_min a b = (if py_lt b a then b else a)"

definition py_max :: "pynum \<Rightarrow> pynum \<Rightarrow> pynum" where
  "py_max a b = (if py_lt a b then b else a)"

text \<open>\<^verbatim>\<open>x * n\<close> for a float \<open>x\<close> and an integer \<open>n\<close>.\<close>

fun py_mul_int :: "pynum \<Rightarrow> int \<Rightarrow> pynum" where
  "py_mul_int (Num q) n = Num (q * of_int n)"
| "py_mul_int NaN n = NaN"
| "py_mul_int PosInf n = (if n = 0 then NaN else if 0 < n then PosInf else NegInf)"
| "py_mul_int NegInf n = (if n = 0 then NaN else if 0 < n then NegInf else PosInf)"

section \<open>Images\<close>

text \<open>
  A PIL image is an object: \<open>oid\<close> is its identity, which the pipeline observes with
  \<^verbatim>\<open>new_image is not image\<close>. The pixel data is abstracted to the size and the mode. No
  operation of the program mutates an image; each PIL operation builds a new object, whose
  identity is the first argument of its model.
\<close>

record image =
  oid :: nat
  width :: int
  height :: int
  mode :: string

text \<open>\<^verbatim>\<open>image.convert(m)\<close>.\<close>

definition convert :: "nat \<Rightarrow> image \<Rightarrow> string \<Rightarrow> image" where
  "convert new img m = img\<lparr>oid := new, mode := m\<rparr>"

text \<open>
  \<^verbatim>\<open>image.crop((left, upper, right, lower))\<close>: the box may reach outside the image; the
  result has the size of the box.
\<close>

definition crop :: "nat \<Rightarrow> image \<Rightarrow> int \<times> int \<times> int \<times> int \<Rightarrow> exc + image" where
  "crop new img box =
     (case box of (left, up, right, low) \<Rightarrow>
        if right < left
          then Inl (Exc ''ValueError''
                      (''Coordinate '' @ [CHR 0x27] @ ''right'' @ [CHR 0x27]
                       @ '' is less than '' @ [CHR 0x27] @ ''left'' @ [CHR 0x27]))
        else if low < up
          then Inl (Exc ''ValueError''
                      (''Coordinate '' @ [CHR 0x27] @ ''lower'' @ [CHR 0x27]
                       @ '' is less than '' @ [CHR 0x27] @ ''upper'' @ [CHR 0x27]))
        else Inr (img\<lparr>oid := new, width := right - left, height := low - up\<rparr>))"

section \<open>The platform registry\<close>

definition SOCIAL_MEDIA_SIZES :: "(string \<times> int \<times> int) list" where
  "SOCIAL_MEDIA_SIZES =
     [(''instagram'', (1080, 1080)),
      (''instagram_story'', (1080, 1920)),
      (''twitter'', (1600, 900)),
      (''linkedin'', (1200, 627)),
      (''facebook'', (1080, 1920)),
      (''facebook_story'', (1080, 1920)),
      (''pinterest'', (1000, 1500)),
      (''youtube_thumbnail'', (1280, 720))]"

definition MIN_RESOLUTION_HEIGHT :: int where
  "MIN_RESOLUTION_HEIGHT = 720"

definition MIN_QUALITY :: int where
  "MIN_QUALITY = 98"

section \<open>Values of the model's response\<close>

text \<open>
  What \<^verbatim>\<open>json.loads\<close> returns: \<open>PInt\<close> is an \<^verbatim>\<open>int\<close>, \<open>PNum\<close> a \<^verbatim>\<open>float\<close>, and a \<open>PDict\<close> lists
  the entries of a dictionary (\<open>map_of\<close> looks a key up).
\<close>

datatype pyval =
    PNone
  | PBool bool
  | PInt int
  | PNum pynum
  | PStr string
  | PList "pyval list"
  | PDict "(string \<times> pyval) list"

text \<open>The name of a value's type, as error messages print it.\<close>

fun type_name :: "pyval \<Rightarrow> string" where
  "type_name PNone = ''NoneType''"
| "type_name (PBool b) = ''bool''"
| "type_name (PInt i) = ''int''"
| "type_name (PNum n) = ''float''"
| "type_name (PStr s) = ''str''"
| "type_name (PList xs) = ''list''"
| "type_name (PDict kvs) = ''dict''"

text \<open>Truth value of an object, as \<^verbatim>\<open>not text\<close> tests it.\<close>

fun truthy :: "pyval \<Rightarrow> bool" where
  "truthy PNone = False"
| "truthy (PBool b) = b"
| "truthy (PInt i) = (i \<noteq> 0)"
| "truthy (PNum n) = (n \<noteq> Num 0)"
| "truthy (PStr s) = (s \<noteq> [])"
| "truthy (PList xs) = (xs \<noteq> [])"
| "truthy (PDict kvs) = (kvs \<noteq> [])"

text \<open>
  \<^verbatim>\<open>result.get(key, default)\<close>: only a dictionary has the method; on any other value the
  attribute lookup raises.
\<close>

fun dict_get :: "pyval \<Rightarrow> string \<Rightarrow> pyval \<Rightarrow> exc + pyval" where
  "dict_get (PDict kvs) key dflt =
     Inr (case map_of kvs key of Some v \<Rightarrow> v | None \<Rightarrow> dflt)"
| "dict_get v key dflt =
     Inl (Exc ''AttributeError''
            ([CHR 0x27] @ type_name v @ [CHR 0x27] @ '' object has no attribute ''
             @ [CHR 0x27] @ ''get'' @ [CHR 0x27]))"

text \<open>
  The numeric value of an operand of \<^verbatim>\<open><\<close>: an int compares by its value, a bool as 0 or 1.
\<close>

fun as_number :: "pyval \<Rightarrow> pynum option" where
  "as_number (PNum n) = Some n"
| "as_number (PInt i) = Some (Num (of_int i))"
| "as_number (PBool b) = Some (Num (if b then 1 else 0))"
| "as_number v = None"

section \<open>Collaborators\<close>

text \<open>
  The file system maps a path to the content of the file; a text file written with
  \<^verbatim>\<open>encoding="utf-8"\<close> is kept as its text.
\<close>

type_synonym files = "string \<Rightarrow> string option"

text \<open>
  The Gemini handle: \<^verbatim>\<open>generate_content(contents)\<close> raises or returns a response, whose
  \<^verbatim>\<open>text\<close> property raises or is a string. Of the contents, the model passes on the parts
  that vary: the platform instruction, the platform name put in the hashtag request, and
  the bytes of the image (the program sends their base64 text).
\<close>

type_synonym response = "exc + string"

type_synonym gemini = "string \<Rightarrow> string \<Rightarrow> string \<Rightarrow> exc + response"

text \<open>
  The dictionary that \<^verbatim>\<open>load_models\<close> builds: each of its two keys is present (\<open>Some\<close>) or
  absent.
\<close>

record models =
  gemini_model :: "gemini option"
  gemini_loaded :: "bool option"

text \<open>Options of \<^verbatim>\<open>image.save\<close>.\<close>

record save_options =
  quality :: "int option"
  optimize :: bool
  subsampling :: "int option"

text \<open>
  Everything the program takes from libraries and the system whose result the program does
  not determine: the decoder and encoder of PIL, the JSON parser, failures of file
  operations, the random identifier and the clock. \<open>resize_fails\<close> is the exception with
  which PIL gives up building the result of a resize of the given image to the given size
  for want of memory (\<open>None\<close> when it builds it).
\<close>

record env =
  uuid4 :: string
  time_ms :: int
  image_open :: "string \<Rightarrow> exc + int \<times> int \<times> string"
  image_save :: "image \<Rightarrow> string \<Rightarrow> save_options \<Rightarrow> exc + string"
  fromarray_mode :: "string \<Rightarrow> string"
  json_loads :: "string \<Rightarrow> exc + pyval"
  write_fails :: "string \<Rightarrow> exc option"
  remove_fails :: "string \<Rightarrow> exc option"
  resize_fails :: "image \<Rightarrow> int \<times> int \<Rightarrow> exc option"

definition OUTPUT_FOLDER :: string where
  "OUTPUT_FOLDER = ''media/optimized/''"

definition CAPTION_FOLDER :: string where
  "CAPTION_FOLDER = ''output_captions/''"

definition TEMP_FOLDER :: string where
  "TEMP_FOLDER = ''temp/''"

section \<open>The subject locator\<close>

definition sanitize_text :: "pyval \<Rightarrow> exc + string" where
  "sanitize_text text =
     (if \<not> truthy text then Inr []
      else case text of
             PStr s \<Rightarrow> Inr s
           | _ \<Rightarrow> Inl (Exc ''AttributeError''
                         ([CHR 0x27] @ type_name text @ [CHR 0x27]
                          @ '' object has no attribute '' @ [CHR 0x27] @ ''encode''
                          @ [CHR 0x27])))"

text \<open>
  In \<open>sanitize_text\<close> the round trip \<^verbatim>\<open>text.encode('utf-8').decode('utf-8')\<close> gives a string
  back unchanged, and every string of 8-bit characters can be encoded, so the handler of
  UnicodeError is not entered on the strings of this model. A value that is true and not
  a string has no \<^verbatim>\<open>encode\<close>.
\<close>

type_synonym located = "pyval \<times> pynum list \<times> pyval"

definition full_image :: "pynum list" where
  "full_image = [Num 0, Num 0, Num 1, Num 1]"

definition platform_prompts :: "(string \<times> string) list" where
  "platform_prompts =
     [(''instagram'', ''Create an engaging, conversational caption with emojis that would perform well on Instagram. Focus on lifestyle aspects and emotions.''),
      (''instagram_story'', ''Create a brief, attention-grabbing caption suitable for Instagram Stories with relevant emojis.''),
      (''twitter'', ''Create a concise, witty caption under 280 characters that would work well on Twitter/X.''),
      (''linkedin'', ''Create a professional-sounding caption that highlights business value, industry insights or professional development aspects.''),
      (''facebook'', ''Create a casual, descriptive caption that encourages engagement and conversation.''),
      (''facebook_story'', ''Create a short, engaging caption suitable for Facebook Stories.''),
      (''pinterest'', ''Create an inspirational caption that describes DIY, home decor, recipe, or lifestyle aspects with searchable keywords.''),
      (''youtube_thumbnail'', ''Create an attention-grabbing title for a YouTube video that drives clicks while accurately describing the content.'')]"

text \<open>Line 100: \<^verbatim>\<open>platform_prompts.get(platform, ...)\<close>.\<close>

definition platform_instruction :: "string \<Rightarrow> string" where
  "platform_instruction platform =
     (case map_of platform_prompts platform of
        Some p \<Rightarrow> p
      | None \<Rightarrow> ''Create a general caption for social media'')"

text \<open>Lines 134 to 139: the JSON text inside the response, with a code fence removed.\<close>

definition extract_json :: "string \<Rightarrow> exc + string" where
  "extract_json response_text =
     (if contains response_text ''```json'' then
        (case item (split response_text ''```json'') 1 of
           Inl e \<Rightarrow> Inl e
         | Inr rest \<Rightarrow>
             (case item (split rest ''```'') 0 of
                Inl e \<Rightarrow> Inl e
              | Inr inner \<Rightarrow> Inr (strip inner)))
      else if contains response_text ''```'' then
        (case item (split response_text ''```'') 1 of
           Inl e \<Rightarrow> Inl e
         | Inr inner \<Rightarrow> Inr (strip inner))
      else Inr (strip response_text))"

text \<open>
  \<^verbatim>\<open>max(0.0, min(1.0, v))\<close> on an element of the box: comparing a float with a value that
  is not a number raises TypeError.
\<close>

definition clamp01 :: "pyval \<Rightarrow> exc + pynum" where
  "clamp01 v =
     (case as_number v of
        None \<Rightarrow> Inl (Exc ''TypeError''
                        ([CHR 0x27] @ ''<'' @ [CHR 0x27]
                         @ '' not supported between instances of '' @ [CHR 0x27]
                         @ type_name v @ [CHR 0x27] @ '' and '' @ [CHR 0x27] @ ''float''
                         @ [CHR 0x27]))
      | Some x \<Rightarrow> Inr (py_max (Num 0) (py_min (Num 1) x)))"

text \<open>Lines 147 to 161: the validation of the bounding box.\<close>

definition validate_bounding_box :: "pyval \<Rightarrow> exc + pynum list" where
  "validate_bounding_box bounding_box =
     (let box = (case bounding_box of
                   PList xs \<Rightarrow> (if length xs \<noteq> 4
                                 then [PNum (Num 0), PNum (Num 0), PNum (Num 1), PNum (Num 1)]
                                 else xs)
                 | _ \<Rightarrow> [PNum (Num 0), PNum (Num 0), PNum (Num 1), PNum (Num 1)])
      in case clamp01 (box ! 0) of Inl e \<Rightarrow> Inl e | Inr b0 \<Rightarrow>
        (case clamp01 (box ! 1) of Inl e \<Rightarrow> Inl e | Inr b1 \<Rightarrow>
        (case clamp01 (box ! 2) of Inl e \<Rightarrow> Inl e | Inr b2 \<Rightarrow>
        (case clamp01 (box ! 3) of Inl e \<Rightarrow> Inl e | Inr b3 \<Rightarrow>
           (if py_le b2 b0 \<or> py_le b3 b1 then Inr full_image
            else Inr [b0, b1, b2, b3])))))"

text \<open>Lines 141 to 163: from the JSON text to the returned triple.\<close>

definition parse_result :: "env \<Rightarrow> string \<Rightarrow> string \<Rightarrow> exc + located" where
  "parse_result ev platform json_str =
     (case json_loads ev json_str of
        Inl e \<Rightarrow> Inl e
      | Inr result \<Rightarrow>
          (case dict_get result ''caption'' (PStr ''No caption generated.'') of
             Inl e \<Rightarrow> Inl e
           | Inr caption \<Rightarrow>
               (case dict_get result ''bounding_box''
                       (PList [PNum (Num 0), PNum (Num 0), PNum (Num 1), PNum (Num 1)]) of
                  Inl e \<Rightarrow> Inl e
                | Inr bounding_box \<Rightarrow>
                    (case dict_get result ''hashtags'' (PStr (''#'' @ platform)) of
                       Inl e \<Rightarrow> Inl e
                     | Inr hashtags \<Rightarrow>
                         (case validate_bounding_box bounding_box of
                            Inl e \<Rightarrow> Inl e
                          | Inr box \<Rightarrow> Inr (caption, box, hashtags))))))"

text \<open>The three triples that \<open>process_with_gemini\<close> returns without a parsed answer.\<close>

definition not_loaded_result :: located where
  "not_loaded_result =
     (PStr ''No caption could be generated. Gemini model not loaded.'', full_image,
      PStr ''#ai #image'')"

definition parse_failed_result :: "string \<Rightarrow> located" where
  "parse_failed_result platform =
     (PStr ''Image analysis failed due to processing error.'', full_image,
      PStr (''#'' @ platform))"

definition failed_result :: "string \<Rightarrow> located" where
  "failed_result platform =
     (PStr ''Image analysis failed.'', full_image, PStr (''#'' @ platform))"

text \<open>
  \<^verbatim>\<open>process_with_gemini(image_path, models, platform)\<close>. The inner \<^verbatim>\<open>try\<close> starts by reading
  \<^verbatim>\<open>response.text\<close>; its handler reads the property again to print it, so when the
  property raises, the handler raises too and the outer handler answers. The outer
  handler catches every exception of the body, so the function itself returns \<open>Inr\<close>.
\<close>

definition process_with_gemini ::
  "env \<Rightarrow> files \<Rightarrow> string \<Rightarrow> models \<Rightarrow> string \<Rightarrow> exc + located" where
  "process_with_gemini ev fs image_path ms platform =
     (let body =
        (if \<not> (case gemini_loaded ms of Some b \<Rightarrow> b | None \<Rightarrow> False)
         then Inr not_loaded_result
         else
           (case fs image_path of
              None \<Rightarrow> Inl (Exc ''FileNotFoundError''
                             (''[Errno 2] No such file or directory: '' @ repr image_path))
            | Some image_bytes \<Rightarrow>
                (case gemini_model ms of
                      None \<Rightarrow> Inl (Exc ''KeyError'' (repr ''gemini''))
                    | Some generate_content \<Rightarrow>
                        (case generate_content (platform_instruction platform)
                                (replace CHR ''_'' CHR '' '' platform) image_bytes of
                           Inl e \<Rightarrow> Inl e
                         | Inr response \<Rightarrow>
                             (case (case response of
                                      Inl e \<Rightarrow> Inl e
                                    | Inr response_text \<Rightarrow>
                                        (case extract_json response_text of
                                           Inl e \<Rightarrow> Inl e
                                         | Inr json_str \<Rightarrow>
                                             parse_result ev platform json_str)) of
                                Inr r \<Rightarrow> Inr r
                              | Inl e \<Rightarrow>
                                  (case response of
                                     Inl e' \<Rightarrow> Inl e'
                                   | Inr response_text \<Rightarrow>
                                       Inr (parse_failed_result platform)))))))
      in case body of
           Inr r \<Rightarrow> Inr r
         | Inl e \<Rightarrow> Inr (failed_result platform))"

section \<open>Cropping to the subject\<close>

text \<open>
  Lines 180 to 197 of \<open>smart_crop_gemini\<close>: the pixel window of a box of four numbers, padded
  by 20% of its sides and cut to the image. The conversions \<^verbatim>\<open>int(...)\<close> raise on a NaN or
  an infinity.
\<close>

definition crop_window :: "image \<Rightarrow> pynum list \<Rightarrow> exc + int \<times> int \<times> int \<times> int" where
  "crop_window img bounding_box =
     (case py_int (py_mul_int (bounding_box ! 0) (width img)) of Inl e \<Rightarrow> Inl e | Inr x1 \<Rightarrow>
     (case py_int (py_mul_int (bounding_box ! 1) (height img)) of Inl e \<Rightarrow> Inl e | Inr y1 \<Rightarrow>
     (case py_int (py_mul_int (bounding_box ! 2) (width img)) of Inl e \<Rightarrow> Inl e | Inr x2 \<Rightarrow>
     (case py_int (py_mul_int (bounding_box ! 3) (height img)) of Inl e \<Rightarrow> Inl e | Inr y2 \<Rightarrow>
        (let pad_x = trunc (of_int (x2 - x1) * (2 / 10));
             pad_y = trunc (of_int (y2 - y1) * (2 / 10))
         in Inr (max 0 (x1 - pad_x), max 0 (y1 - pad_y),
                 min (width img) (x2 + pad_x), min (height img) (y2 + pad_y)))))))"

text \<open>
  \<^verbatim>\<open>smart_crop_gemini(image, bounding_box)\<close>. The array slice
  \<^verbatim>\<open>img_array[y1:y2, x1:x2]\<close> is taken only for a window inside the image, so the new
  image has the size of the window; \<open>new\<close> is its identity. The handler returns the image
  it was given.
\<close>

definition smart_crop_gemini :: "env \<Rightarrow> nat \<Rightarrow> image \<Rightarrow> pynum list \<Rightarrow> exc + image" where
  "smart_crop_gemini ev new img bounding_box =
     (let body =
        (if bounding_box = [] \<or> length bounding_box \<noteq> 4 then Inr img
         else
           (case crop_window img bounding_box of
              Inl e \<Rightarrow> Inl e
            | Inr (x1, y1, x2, y2) \<Rightarrow>
                (if x1 \<ge> x2 \<or> y1 \<ge> y2 \<or> x2 \<le> 0 \<or> y2 \<le> 0 then Inr img
                 else Inr \<lparr>oid = new, width = x2 - x1, height = y2 - y1,
                          mode = fromarray_mode ev (mode img)\<rparr>)))
      in case body of
           Inr r \<Rightarrow> Inr r
         | Inl e \<Rightarrow> Inr img)"

section \<open>Fitting an image to a platform\<close>

text \<open>
  \<^verbatim>\<open>image.resize((w, h), LANCZOS)\<close>: a copy when the size is the image's own. Otherwise the
  two sides are handed to PIL's C function as C integers, which raises OverflowError for a
  side outside their range; a side below 1 is a ValueError; and the new image has to be
  allocated, which PIL answers with MemoryError when it cannot (\<open>resize_fails\<close>).
\<close>

definition C_INT_MAX :: int where
  "C_INT_MAX = 2147483647"

definition resize :: "env \<Rightarrow> nat \<Rightarrow> image \<Rightarrow> int \<times> int \<Rightarrow> exc + image" where
  "resize ev new img sz =
     (if (width img, height img) = sz then Inr (img\<lparr>oid := new\<rparr>)
      else if C_INT_MAX < fst sz \<or> C_INT_MAX < snd sz
        then Inl (Exc ''OverflowError'' ''signed integer is greater than maximum'')
      else if fst sz < - C_INT_MAX - 1 \<or> snd sz < - C_INT_MAX - 1
        then Inl (Exc ''OverflowError'' ''signed integer is less than minimum'')
      else if fst sz < 1 \<or> snd sz < 1
        then Inl (Exc ''ValueError'' ''height and width must be > 0'')
      else (case resize_fails ev img sz of
              Some e \<Rightarrow> Inl e
            | None \<Rightarrow> Inr (img\<lparr>oid := new, width := fst sz, height := snd sz\<rparr>)))"

text \<open>
  \<^verbatim>\<open>optimize_for_platform(image, platform)\<close>. The handler of its \<^verbatim>\<open>try\<close> prints and raises
  the exception again, so an error of the body is the error of the function. \<open>new\<close> is
  the first unused object identity.
\<close>

definition optimize_for_platform :: "env \<Rightarrow> nat \<Rightarrow> image \<Rightarrow> string \<Rightarrow> exc + image" where
  "optimize_for_platform ev new img platform =
     (case map_of SOCIAL_MEDIA_SIZES (lower platform) of
        None \<Rightarrow> Inl (Exc ''ValueError'' (''Unsupported platform: '' @ platform))
      | Some (tw, th) \<Rightarrow>
          (let image1 = (if mode img \<in> {''RGBA'', ''P''} then convert new img ''RGB''
                         else img)
           in if height image1 = 0 then Inl (Exc ''ZeroDivisionError'' ''division by zero'')
           else
             (let img_aspect = (of_int (width image1) / of_int (height image1) :: rat);
                  target_aspect = (of_int tw / of_int th :: rat)
              in (case (if height image1 < MIN_RESOLUTION_HEIGHT
                        then resize ev (new + 1) image1
                               (trunc (of_int MIN_RESOLUTION_HEIGHT * img_aspect),
                                MIN_RESOLUTION_HEIGHT)
                        else Inr image1) of
                    Inl e \<Rightarrow> Inl e
                  | Inr image2 \<Rightarrow>
                      (if \<bar>img_aspect - target_aspect\<bar> > 1 / 100 then
                         (case (if img_aspect > target_aspect
                                then resize ev (new + 2) image2
                                       (trunc (of_int th * img_aspect), th)
                                else if img_aspect = 0
                                  then Inl (Exc ''ZeroDivisionError''
                                              ''float division by zero'')
                                else resize ev (new + 2) image2
                                       (tw, trunc (of_int tw / img_aspect))) of
                            Inl e \<Rightarrow> Inl e
                          | Inr image3 \<Rightarrow>
                              (let left = (width image3 - tw) div 2;
                                   top' = (height image3 - th) div 2;
                                   right = left + tw;
                                   bottom = top' + th
                               in crop (new + 3) image3 (left, top', right, bottom)))
                       else resize ev (new + 2) image2 (tw, th))))))"

section \<open>The pipeline\<close>

text \<open>
  The dictionary that \<open>process_image_complete\<close> returns. The key \<^verbatim>\<open>error\<close> is present in an
  error record only, the key \<^verbatim>\<open>optimized_image\<close> in a success record only.
\<close>

record result =
  r_error :: "string option"
  r_platform :: string
  r_size :: "int \<times> int"
  r_optimized_image :: "string option"
  r_caption_text :: string
  r_hashtags :: string
  r_enhanced :: bool
  r_smart_cropped :: bool

text \<open>Lines 282 to 284 and 286 to 288: the two triples the pipeline writes itself.\<close>

definition locate_fallback :: "string \<Rightarrow> located" where
  "locate_fallback platform =
     (PStr ''An image showing scenery or objects.'', full_image,
      PStr (''#'' @ platform @ '' #photo #image''))"

definition not_available :: "string \<Rightarrow> located" where
  "not_available platform =
     (PStr ''Image analysis not available. Gemini model not loaded.'', full_image,
      PStr (''#'' @ platform))"

text \<open>
  Lines 278 to 284: the \<^verbatim>\<open>try/except\<close> around the call of the locator, as a function of
  what the call did.
\<close>

definition guarded_call :: "exc + located \<Rightarrow> string \<Rightarrow> located" where
  "guarded_call outcome platform =
     (case outcome of Inr r \<Rightarrow> r | Inl e \<Rightarrow> locate_fallback platform)"

text \<open>
  The pipeline calls the locator through the name \<^verbatim>\<open>process_with_gemini\<close> of the module, which
  Python looks up at the time of the call. Its steps are therefore written for any function
  \<open>locator\<close> bound to that name, so that what the pipeline does with a call that raises can
  be stated; the program is the instance at \<open>process_with_gemini\<close>.
\<close>

type_synonym locator = "env \<Rightarrow> files \<Rightarrow> string \<Rightarrow> models \<Rightarrow> string \<Rightarrow> exc + located"

text \<open>
  STEP 1, lines 276 to 288. \<^verbatim>\<open>AI_MODELS\<close> is \<^verbatim>\<open>None\<close> or a dictionary; an empty dictionary
  is false.
\<close>

definition locate_with ::
  "locator \<Rightarrow> env \<Rightarrow> files \<Rightarrow> string \<Rightarrow> models option \<Rightarrow> string \<Rightarrow> located" where
  "locate_with locator ev fs original_path AI_MODELS platform =
     (case AI_MODELS of
        None \<Rightarrow> not_available platform
      | Some ms \<Rightarrow>
          (if (gemini_model ms \<noteq> None \<or> gemini_loaded ms \<noteq> None)
               \<and> (case gemini_loaded ms of Some b \<Rightarrow> b | None \<Rightarrow> False)
           then guarded_call (locator ev fs original_path ms platform) platform
           else not_available platform))"

definition locate ::
  "env \<Rightarrow> files \<Rightarrow> string \<Rightarrow> models option \<Rightarrow> string \<Rightarrow> located" where
  "locate ev fs original_path AI_MODELS platform =
     locate_with process_with_gemini ev fs original_path AI_MODELS platform"

text \<open>
  STEP 2, lines 291 to 299: the image to go on with and the flag \<^verbatim>\<open>smart_cropped\<close>. The test
  \<^verbatim>\<open>new_image is not image\<close> compares identities.
\<close>

definition apply_smart_crop ::
  "env \<Rightarrow> nat \<Rightarrow> image \<Rightarrow> bool \<Rightarrow> pynum list \<Rightarrow> image \<times> bool" where
  "apply_smart_crop ev new img smart_crop_enabled bounding_box =
     (if smart_crop_enabled \<and> bounding_box \<noteq> [] then
        (case smart_crop_gemini ev new img bounding_box of
           Inl e \<Rightarrow> (img, False)
         | Inr new_image \<Rightarrow>
             (if oid new_image \<noteq> oid img then (new_image, True) else (img, False)))
      else (img, False))"

text \<open>The paths of the temporary copy (lines 271, 272) and of the caption file (323, 324).\<close>

definition original_path_of :: "env \<Rightarrow> string \<Rightarrow> string" where
  "original_path_of ev format =
     os_path_join TEMP_FOLDER (''original_'' @ uuid4 ev @ ''.'' @ lower format)"

definition caption_path_of :: "env \<Rightarrow> string \<Rightarrow> string" where
  "caption_path_of ev platform =
     os_path_join CAPTION_FOLDER
       (platform @ ''_'' @ uuid4 ev @ ''_'' @ str_int (time_ms ev) @ ''.txt'')"

text \<open>
  The body of the \<^verbatim>\<open>try\<close> of \<open>process_image_complete\<close>, lines 263 to 345, with the file
  system it leaves. Within one call the objects get the identities 0 (the decoded image),
  1 (the crop) and 2 onwards (the images of \<open>optimize_for_platform\<close>).
\<close>

definition process_body_with ::
  "locator \<Rightarrow> env \<Rightarrow> files \<Rightarrow> string \<Rightarrow> string \<Rightarrow> string \<Rightarrow> bool \<Rightarrow> models option
     \<Rightarrow> (exc + result) \<times> files" where
  "process_body_with locator ev fs image_bytes platform format smart_crop_enabled AI_MODELS =
     (let process_id = uuid4 ev;
          timestamp_val = time_ms ev
      in case image_open ev image_bytes of
        Inl e \<Rightarrow> (Inl e, fs)
      | Inr (w, h, m) \<Rightarrow>
     (let img = \<lparr>oid = 0, width = w, height = h, mode = m\<rparr>;
          original_path = original_path_of ev format
      in case image_save ev img original_path
                \<lparr>quality = None, optimize = False, subsampling = None\<rparr> of
        Inl e \<Rightarrow> (Inl e, fs)
      | Inr original_data \<Rightarrow>
     (let fs1 = fs(original_path \<mapsto> original_data)
      in case locate_with locator ev fs1 original_path AI_MODELS platform of
        (caption, bounding_box, hashtags) \<Rightarrow>
     (case apply_smart_crop ev 1 img smart_crop_enabled bounding_box of
        (img2, smart_cropped) \<Rightarrow>
     (case optimize_for_platform ev 2 img2 platform of
        Inl e \<Rightarrow> (Inl e, fs1)
      | Inr img3 \<Rightarrow>
     (let enhanced = False
      in case sanitize_text caption of
        Inl e \<Rightarrow> (Inl e, fs1)
      | Inr caption_text \<Rightarrow>
     (case sanitize_text hashtags of
        Inl e \<Rightarrow> (Inl e, fs1)
      | Inr hashtags_text \<Rightarrow>
     (let output_filename = platform @ ''_'' @ process_id @ ''_'' @ str_int timestamp_val
                            @ ''.'' @ lower format;
          output_path = os_path_join OUTPUT_FOLDER output_filename
      in case image_save ev img3 output_path
                (if upper format = ''JPEG''
                 then \<lparr>quality = Some MIN_QUALITY, optimize = True, subsampling = Some 0\<rparr>
                 else \<lparr>quality = Some MIN_QUALITY, optimize = True, subsampling = None\<rparr>) of
        Inl e \<Rightarrow> (Inl e, fs1)
      | Inr output_data \<Rightarrow>
     (let fs2 = fs1(output_path \<mapsto> output_data);
          caption_path = caption_path_of ev platform
      in case write_fails ev caption_path of
        Some e \<Rightarrow> (Inl e, fs2)
      | None \<Rightarrow>
     (let fs3 = fs2(caption_path \<mapsto> caption_text @ [CHR 0x0A, CHR 0x0A] @ hashtags_text);
          fs4 = (if fs3 original_path \<noteq> None
                 then (case remove_fails ev original_path of
                         None \<Rightarrow> fs3(original_path := None)
                       | Some e \<Rightarrow> fs3)
                 else fs3)
      in case map_of SOCIAL_MEDIA_SIZES platform of
        None \<Rightarrow> (Inl (Exc ''KeyError'' (repr platform)), fs4)
      | Some sz \<Rightarrow>
          (Inr \<lparr>r_error = None,
                r_platform = title (replace CHR ''_'' CHR '' '' platform),
                r_size = sz,
                r_optimized_image = Some (''/media/optimized/'' @ output_filename),
                r_caption_text = caption_text,
                r_hashtags = hashtags_text,
                r_enhanced = enhanced,
                r_smart_cropped = smart_cropped\<rparr>, fs4)))))))))))"

definition process_body ::
  "env \<Rightarrow> files \<Rightarrow> string \<Rightarrow> string \<Rightarrow> string \<Rightarrow> bool \<Rightarrow> models option
     \<Rightarrow> (exc + result) \<times> files" where
  "process_body ev fs image_bytes platform format smart_crop_enabled AI_MODELS =
     process_body_with process_with_gemini ev fs image_bytes platform format
       smart_crop_enabled AI_MODELS"

text \<open>Lines 346 to 357: the dictionary built by the handler.\<close>

definition error_record :: "exc \<Rightarrow> string \<Rightarrow> result" where
  "error_record e platform =
     \<lparr>r_error = Some (''Processing failed: '' @ exc_msg e),
      r_platform = title (replace CHR ''_'' CHR '' '' platform),
      r_size = (case map_of SOCIAL_MEDIA_SIZES platform of Some sz \<Rightarrow> sz | None \<Rightarrow> (0, 0)),
      r_optimized_image = None,
      r_caption_text = ''Image processing failed.'',
      r_hashtags = ''#'' @ platform,
      r_enhanced = False,
      r_smart_cropped = False\<rparr>"

text \<open>
  \<^verbatim>\<open>process_image_complete\<close>. The options \<^verbatim>\<open>enhance_image_enabled\<close> and \<^verbatim>\<open>confidence\<close> are
  accepted and not read. A result \<open>Inl\<close> would be an exception leaving the function.
\<close>

definition process_image_complete_with ::
  "locator \<Rightarrow> env \<Rightarrow> files \<Rightarrow> string \<Rightarrow> string \<Rightarrow> string \<Rightarrow> bool \<Rightarrow> bool \<Rightarrow> rat
     \<Rightarrow> models option \<Rightarrow> (exc + result) \<times> files" where
  "process_image_complete_with locator ev fs image_bytes platform format smart_crop_enabled
       enhance_image_enabled confidence AI_MODELS =
     (case process_body_with locator ev fs image_bytes platform format smart_crop_enabled
             AI_MODELS of
        (Inr r, fs') \<Rightarrow> (Inr r, fs')
      | (Inl e, fs') \<Rightarrow> (Inr (error_record e platform), fs'))"

definition process_image_complete ::
  "env \<Rightarrow> files \<Rightarrow> string \<Rightarrow> string \<Rightarrow> string \<Rightarrow> bool \<Rightarrow> bool \<Rightarrow> rat \<Rightarrow> models option
     \<Rightarrow> (exc + result) \<times> files" where
  "process_image_complete ev fs image_bytes platform format smart_crop_enabled
       enhance_image_enabled confidence AI_MODELS =
     process_image_complete_with process_with_gemini ev fs image_bytes platform format
       smart_crop_enabled enhance_image_enabled confidence AI_MODELS"

section \<open>Reading a caption file back\<close>

text \<open>
  The reading that the specification describes for a caption file: the first line, a
  blank line, and what remains. It is not part of the program.
\<close>

definition parse_sidecar :: "string \<Rightarrow> (string \<times> string) option" where
  "parse_sidecar content =
     (case dropWhile (\<lambda>c. c \<noteq> CHR 0x0A) content of
        a # b # remaining \<Rightarrow>
          (if b = CHR 0x0A then Some (takeWhile (\<lambda>c. c \<noteq> CHR 0x0A) content, remaining)
           else None)
      | _ \<Rightarrow> None)"

section \<open>Sample collaborators\<close>

text \<open>
  Collaborators for concrete runs. The decoder accepts one byte string, as a 100 by 100
  RGB image; the encoder, the file operations and the allocations of resize succeed; the
  JSON parser knows three texts, and \<open>json_caption\<close> is a caption of two lines in JSON notation.
\<close>

definition quoted :: "string \<Rightarrow> string" where
  "quoted s = [CHR 0x22] @ s @ [CHR 0x22]"

definition json_caption :: string where
  "json_caption = ''{'' @ quoted ''caption'' @ '': '' @ quoted (''Sea'' @ [CHR 0x5C] @ ''nSky'')
                  @ ''}''"

definition sample_loads :: "string \<Rightarrow> exc + pyval" where
  "sample_loads s =
     (if s = ''{}'' then Inr (PDict [])
      else if s = json_caption then Inr (PDict [(''caption'', PStr (''Sea'' @ [CHR 0x0A] @ ''Sky''))])
      else if s = ''[1, 2]'' then Inr (PList [PInt 1, PInt 2])
      else Inl (Exc ''JSONDecodeError'' ''Expecting value: line 1 column 1 (char 0)''))"

definition sample_env :: env where
  "sample_env =
     \<lparr>uuid4 = ''0b1e'',
      time_ms = 1700,
      image_open = (\<lambda>b. if b = ''PNG'' then Inr (100, 100, ''RGB'')
                         else Inl (Exc ''UnidentifiedImageError'' ''cannot identify image file'')),
      image_save = (\<lambda>img path opts. Inr ''encoded''),
      fromarray_mode = (\<lambda>m. m),
      json_loads = sample_loads,
      write_fails = (\<lambda>path. None),
      remove_fails = (\<lambda>path. None),
      resize_fails = (\<lambda>img sz. None)\<rparr>"

text \<open>A loaded handle whose response has the given text.\<close>

definition sample_models :: "string \<Rightarrow> models" where
  "sample_models response_text =
     \<lparr>gemini_model = Some (\<lambda>instruction name image_bytes. Inr (Inr response_text)),
      gemini_loaded = Some True\<rparr>"

section \<open>Verified properties\<close>

lemma process_image_complete_body:
  "process_image_complete ev fs image_bytes platform format smart_crop_enabled
       enhance_image_enabled confidence AI_MODELS =
     (case process_body ev fs image_bytes platform format smart_crop_enabled AI_MODELS of
        (Inr r, fs') \<Rightarrow> (Inr r, fs')
      | (Inl e, fs') \<Rightarrow> (Inr (error_record e platform), fs'))"
  by (simp add: process_image_complete_def process_image_complete_with_def process_body_def)

lemma registry_cases:
  assumes "map_of SOCIAL_MEDIA_SIZES p = Some (tw, th)"
  shows "lower p = p \<and> 0 < tw \<and> 0 < th \<and> tw \<le> 2000 \<and> th \<le> 2000"
proof -
  have "p \<in> fst ` set SOCIAL_MEDIA_SIZES" using assms by (metis map_of_eq_None_iff option.distinct(1))
  then have "p \<in> {''instagram'', ''instagram_story'', ''twitter'', ''linkedin'', ''facebook'',
     ''facebook_story'', ''pinterest'', ''youtube_thumbnail''}"
    by (simp add: SOCIAL_MEDIA_SIZES_def)
  then show ?thesis using assms
    by (auto simp add: SOCIAL_MEDIA_SIZES_def lower_def lower_char_def ascii_upper_def ascii_lower_def)
qed

lemma trunc_ge_1: "1 \<le> q \<Longrightarrow> 1 \<le> trunc q"
  by (simp add: trunc_def le_floor_iff)

lemma trunc_le: "0 \<le> q \<Longrightarrow> q \<le> of_int k \<Longrightarrow> trunc q \<le> k"
  by (simp add: trunc_def floor_le_iff)

text \<open>
  What a resize to a size with sides of at least 1 does: it returns an image of that
  size, or it raises OverflowError or the exception of the allocation; it returns when
  the sides are C integers and the allocation does not fail.
\<close>

lemma resize_outcome:
  assumes "1 \<le> s" and "1 \<le> t"
    and "ok \<Longrightarrow> s \<le> C_INT_MAX \<and> t \<le> C_INT_MAX \<and> resize_fails ev i (s, t) = None"
  shows "((\<exists>out. resize ev n i (s, t) = Inr out \<and> width out = s \<and> height out = t)
          \<or> (\<exists>e. resize ev n i (s, t) = Inl e
                  \<and> (exc_class e = ''OverflowError''
                      \<or> (\<exists>j sz. resize_fails ev j sz = Some e))))
         \<and> (ok \<longrightarrow> (\<exists>out. resize ev n i (s, t) = Inr out \<and> width out = s \<and> height out = t))"
proof (cases "resize_fails ev i (s, t)")
  case None
  then show ?thesis using assms by (auto simp add: resize_def C_INT_MAX_def)
next
  case (Some e)
  then have "\<exists>j sz. resize_fails ev j sz = Some e" by blast
  with Some show ?thesis using assms by (auto simp add: resize_def C_INT_MAX_def)
qed

lemma optimize_size_generic:
  assumes reg: "map_of SOCIAL_MEDIA_SIZES (lower p) = Some (tw, th)"
    and tw: "0 < tw" and tw2: "tw \<le> 2000" and th: "0 < th" and th2: "th \<le> 2000"
    and w: "0 < width img" and h: "0 < height img"
    and ok: "ok \<Longrightarrow> K \<le> 1000000
                   \<and> (\<forall>i sz. fst sz * snd sz \<le> 4000000 * K \<longrightarrow> resize_fails ev i sz = None)
                   \<and> width img \<le> K * height img \<and> height img \<le> K * width img"
  shows "((\<exists>out. optimize_for_platform ev new img p = Inr out \<and> width out = tw \<and> height out = th)
          \<or> (\<exists>e. optimize_for_platform ev new img p = Inl e
                  \<and> (exc_class e = ''OverflowError''
                      \<or> (\<exists>j sz. resize_fails ev j sz = Some e))))
         \<and> (ok \<longrightarrow> (\<exists>out. optimize_for_platform ev new img p = Inr out
                            \<and> width out = tw \<and> height out = th))"
proof -
  define good where "good = (\<lambda>(r :: exc + image) s t.
      ((\<exists>out. r = Inr out \<and> width out = s \<and> height out = t)
       \<or> (\<exists>e. r = Inl e \<and> (exc_class e = ''OverflowError''
                              \<or> (\<exists>j sz. resize_fails ev j sz = Some e))))
      \<and> (ok \<longrightarrow> (\<exists>out. r = Inr out \<and> width out = s \<and> height out = t)))"
  have K1: "1 \<le> K" if ok
  proof (rule ccontr)
    assume "\<not> 1 \<le> K"
    then have "K \<le> 0" by simp
    then have "K * height img \<le> 0" using h by (simp add: mult_nonpos_nonneg)
    with ok[OF that] w show False by simp
  qed
  have rs: "good (resize ev n i (s, t)) s t"
    if "1 \<le> s" and "1 \<le> t"
      and "ok \<Longrightarrow> (s \<le> 2000 * K \<and> t \<le> 2000) \<or> (s \<le> 2000 \<and> t \<le> 2000 * K)" for n i s t
  proof -
    have "s \<le> C_INT_MAX \<and> t \<le> C_INT_MAX \<and> resize_fails ev i (s, t) = None" if ok
    proof -
      from ok[OF \<open>ok\<close>] have K: "K \<le> 1000000" by simp
      from \<open>ok\<close> \<open>ok \<Longrightarrow> (s \<le> 2000 * K \<and> t \<le> 2000) \<or> (s \<le> 2000 \<and> t \<le> 2000 * K)\<close>
      consider "s \<le> 2000 * K" "t \<le> 2000" | "s \<le> 2000" "t \<le> 2000 * K" by blast
      then have "s * t \<le> 4000000 * K"
      proof cases
        case 1
        have "s * t \<le> (2000 * K) * 2000"
          using 1 \<open>1 \<le> s\<close> \<open>1 \<le> t\<close> by (intro mult_mono) simp_all
        then show ?thesis by simp
      next
        case 2
        have "s * t \<le> 2000 * (2000 * K)"
          using 2 \<open>1 \<le> s\<close> \<open>1 \<le> t\<close> by (intro mult_mono) simp_all
        then show ?thesis by simp
      qed
      with ok[OF \<open>ok\<close>] have "resize_fails ev i (s, t) = None" by simp
      moreover have "s \<le> C_INT_MAX \<and> t \<le> C_INT_MAX"
        using K K1[OF \<open>ok\<close>] \<open>ok \<Longrightarrow> (s \<le> 2000 * K \<and> t \<le> 2000) \<or> (s \<le> 2000 \<and> t \<le> 2000 * K)\<close>[OF \<open>ok\<close>]
        by (auto simp add: C_INT_MAX_def)
      ultimately show ?thesis by simp
    qed
    with that(1,2) show ?thesis unfolding good_def by (intro resize_outcome) simp_all
  qed
  define image1 where "image1 = (if mode img \<in> {''RGBA'', ''P''} then convert new img ''RGB'' else img)"
  have w1: "width image1 = width img" and h1: "height image1 = height img"
    by (simp_all add: image1_def convert_def)
  define a :: rat where "a = of_int (width image1) / of_int (height image1)"
  define ta :: rat where "ta = of_int tw / of_int th"
  have a_pos: "0 < a" using w h by (simp add: a_def w1 h1)
  have ta_pos: "0 < ta" using tw th by (simp add: ta_def)
  have a_le: "a \<le> of_int K" if ok
  proof -
    from ok[OF that] have "width img \<le> K * height img" by simp
    then have "(of_int (width img) :: rat) \<le> of_int (K * height img)"
      by (simp only: of_int_le_iff)
    then show ?thesis using h by (simp add: a_def w1 h1 divide_le_eq)
  qed
  have a_ge: "1 \<le> of_int K * a" if ok
  proof -
    from ok[OF that] have "height img \<le> K * width img" by simp
    then have "(of_int (height img) :: rat) \<le> of_int (K * width img)"
      by (simp only: of_int_le_iff)
    then show ?thesis using h by (simp add: a_def w1 h1 le_divide_eq)
  qed
  have tw2': "(of_int tw :: rat) \<le> 2000" and th2': "(of_int th :: rat) \<le> 2000"
    using tw2 th2 by (simp_all add: of_int_le_numeral_iff)
  define r2 where "r2 = (if height image1 < MIN_RESOLUTION_HEIGHT
                        then resize ev (new + 1) image1
                               (trunc (of_int MIN_RESOLUTION_HEIGHT * a), MIN_RESOLUTION_HEIGHT)
                        else Inr image1)"
  have r2: "(\<exists>image2. r2 = Inr image2)
            \<or> (\<not> ok \<and> (\<exists>e. r2 = Inl e \<and> (exc_class e = ''OverflowError''
                                              \<or> (\<exists>j sz. resize_fails ev j sz = Some e))))"
  proof (cases "height image1 < MIN_RESOLUTION_HEIGHT")
    case True
    then have hlt: "height img < 720" by (simp add: h1 MIN_RESOLUTION_HEIGHT_def)
    have "of_int (height img) \<le> (720::rat) * of_int (width img)"
    proof -
      have "height img \<le> 720 * width img" using hlt w by linarith
      then have "(of_int (height img) :: rat) \<le> of_int (720 * width img)" by (simp only: of_int_le_iff)
      then show ?thesis by simp
    qed
    then have ge: "1 \<le> 720 * a" using h by (simp add: a_def w1 h1 le_divide_eq)
    then have s1: "1 \<le> trunc (720 * a)" by (rule trunc_ge_1)
    have s2: "trunc (720 * a) \<le> 2000 * K" if ok
    proof -
      have "720 * a \<le> of_int (2000 * K)" using a_le[OF that] a_pos by simp
      with ge show ?thesis by (intro trunc_le) simp_all
    qed
    from rs[of "trunc (720 * a)" 720 "new + 1" image1] s1 s2
    have "good (resize ev (new + 1) image1 (trunc (720 * a), 720)) (trunc (720 * a)) 720"
      by simp
    then show ?thesis using True
      by (auto simp add: r2_def MIN_RESOLUTION_HEIGHT_def good_def)
  next
    case False
    then show ?thesis by (simp add: r2_def)
  qed
  define cut where "cut = (\<lambda>r. case r of
                            Inl e \<Rightarrow> Inl e
                          | Inr image3 \<Rightarrow>
                              (let left = (width image3 - tw) div 2;
                                   top' = (height image3 - th) div 2;
                                   right = left + tw;
                                   bottom = top' + th
                               in crop (new + 3) image3 (left, top', right, bottom)))"
  have cut: "good (cut r) tw th" if "good r s t" for r s t
    using that tw th unfolding good_def cut_def
    by (auto simp add: Let_def crop_def)
  define fit where "fit = (\<lambda>image2. if \<bar>a - ta\<bar> > 1 / 100 then
                         cut (if a > ta
                                then resize ev (new + 2) image2 (trunc (of_int th * a), th)
                                else if a = 0
                                  then Inl (Exc ''ZeroDivisionError'' ''float division by zero'')
                                else resize ev (new + 2) image2 (tw, trunc (of_int tw / a)))
                       else resize ev (new + 2) image2 (tw, th))"
  have final: "good (fit image2) tw th" for image2
  proof (cases "\<bar>a - ta\<bar> > 1 / 100")
    case False
    have "good (resize ev (new + 2) image2 (tw, th)) tw th"
    proof (rule rs)
      show "1 \<le> tw" "1 \<le> th" using tw th by simp_all
      show "(tw \<le> 2000 * K \<and> th \<le> 2000) \<or> (tw \<le> 2000 \<and> th \<le> 2000 * K)" if ok
        using K1[OF that] tw2 th2 by simp
    qed
    with False show ?thesis by (simp add: fit_def)
  next
    case far: True
    show ?thesis
    proof (cases "a > ta")
      case True
      have "of_int tw = of_int th * ta" using th by (simp add: ta_def)
      also have "\<dots> < of_int th * a" using True th by simp
      finally have ge: "(1::rat) \<le> of_int th * a" using tw by (smt (verit) of_int_0_less_iff of_int_1_le_iff less_le_trans le_less_trans less_imp_le)
      then have s1: "1 \<le> trunc (of_int th * a)" by (rule trunc_ge_1)
      have s2: "trunc (of_int th * a) \<le> 2000 * K" if ok
      proof -
        have "of_int th * a \<le> 2000 * a" using th2' a_pos by (simp add: mult_right_mono)
        also have "\<dots> \<le> 2000 * of_int K" using a_le[OF that] by simp
        finally have "of_int th * a \<le> of_int (2000 * K)" by simp
        with ge show ?thesis by (intro trunc_le) simp_all
      qed
      from rs[of "trunc (of_int th * a)" th "new + 2" image2] s1 s2 th th2
      have "good (resize ev (new + 2) image2 (trunc (of_int th * a), th)) (trunc (of_int th * a)) th"
        by simp
      from cut[OF this] show ?thesis using far True by (simp add: fit_def)
    next
      case False
      then have le: "a \<le> ta" by simp
      have "of_int th = of_int tw / ta" using tw th by (simp add: ta_def)
      also have "\<dots> \<le> of_int tw / a" using le a_pos tw by (simp add: frac_le)
      finally have ge: "(1::rat) \<le> of_int tw / a" using th
        by (smt (verit) of_int_1_le_iff order_trans)
      then have s1: "1 \<le> trunc (of_int tw / a)" by (rule trunc_ge_1)
      have s2: "trunc (of_int tw / a) \<le> 2000 * K" if ok
      proof -
        have "of_int tw \<le> 2000 * (of_int K * a)" using tw2' a_ge[OF that] by linarith
        then have "of_int tw / a \<le> of_int (2000 * K)" using a_pos
          by (simp add: divide_le_eq mult.assoc)
        with ge show ?thesis by (intro trunc_le) simp_all
      qed
      from rs[of tw "trunc (of_int tw / a)" "new + 2" image2] s1 s2 tw tw2
      have "good (resize ev (new + 2) image2 (tw, trunc (of_int tw / a))) tw (trunc (of_int tw / a))"
        by simp
      from cut[OF this] show ?thesis using far False a_pos by (simp add: fit_def)
    qed
  qed
  have hne: "(height image1 = 0) = False" using h h1 by simp
  have "optimize_for_platform ev new img p = (case r2 of Inl e \<Rightarrow> Inl e | Inr image2 \<Rightarrow> fit image2)"
    unfolding optimize_for_platform_def reg option.case prod.case Let_def
      image1_def[symmetric] a_def[symmetric] ta_def[symmetric] r2_def[symmetric] fit_def cut_def
    by (simp only: hne if_False)
  moreover have "good (case r2 of Inl e \<Rightarrow> Inl e | Inr image2 \<Rightarrow> fit image2) tw th"
  proof (cases r2)
    case (Inr image2)
    then show ?thesis using final[of image2] by simp
  next
    case (Inl e)
    with r2 show ?thesis by (auto simp add: good_def)
  qed
  ultimately show ?thesis by (simp add: good_def)
qed

text \<open>
  C1 (as amended). For every platform key of the registry and every image with positive
  width and height, \<open>optimize_for_platform\<close> either returns an image whose width and
  height are exactly the registered ones, or raises the exception of a resize that PIL
  could not carry out: OverflowError when a requested side is beyond the C integers, or
  the exception of the failed allocation. It returns, with exactly the registered size,
  whenever neither side of the image is more than \<open>K\<close> times the other, for a \<open>K\<close> of at
  most a million, and no allocation of an image of up to 4000000 \<open>K\<close> pixels fails (for a
  source between 1:4 and 4:1, 16 million pixels). The statement covers the direct resize taken when the aspect ratios are
  within 0.01 and both resize-then-crop branches; no resize is asked for a side below 1,
  as the sides computed from the aspect ratio are at least 720/719, the target width, or
  the target height.
\<close>

theorem optimize_for_platform_exact_size:
  assumes "map_of SOCIAL_MEDIA_SIZES platform = Some (tw, th)"
    and "0 < width img" and "0 < height img"
  shows "((\<exists>out. optimize_for_platform ev new img platform = Inr out
                 \<and> width out = tw \<and> height out = th)
          \<or> (\<exists>e. optimize_for_platform ev new img platform = Inl e
                  \<and> (exc_class e = ''OverflowError''
                      \<or> (\<exists>i sz. resize_fails ev i sz = Some e))))
         \<and> (K \<le> 1000000
              \<and> (\<forall>i sz. fst sz * snd sz \<le> 4000000 * K \<longrightarrow> resize_fails ev i sz = None)
              \<and> width img \<le> K * height img \<and> height img \<le> K * width img
            \<longrightarrow> (\<exists>out. optimize_for_platform ev new img platform = Inr out
                        \<and> width out = tw \<and> height out = th))"
proof -
  from registry_cases[OF assms(1)]
  have "lower platform = platform" "0 < tw" "0 < th" "tw \<le> 2000" "th \<le> 2000"
    by simp_all
  with assms show ?thesis
    by (intro optimize_size_generic) simp_all
qed

theorem optimize_for_platform_exact_size_witness:
  "map_of SOCIAL_MEDIA_SIZES ''twitter'' = Some (1600, 900)
   \<and> (\<forall>i sz. resize_fails sample_env i sz = None)
   \<and> (100::int) \<le> 1 * 100
   \<and> (\<exists>out. optimize_for_platform sample_env 1
               \<lparr>oid = 0, width = 100, height = 100, mode = ''RGB''\<rparr> ''twitter'' = Inr out
             \<and> width out = 1600 \<and> height out = 900)"
proof -
  have reg: "map_of SOCIAL_MEDIA_SIZES ''twitter'' = Some (1600, 900)"
    by (simp add: SOCIAL_MEDIA_SIZES_def)
  have mem: "\<forall>i sz. resize_fails sample_env i sz = None"
    by (simp add: sample_env_def)
  from optimize_for_platform_exact_size
         [OF reg, of "\<lparr>oid = 0, width = 100, height = 100, mode = ''RGB''\<rparr>" sample_env 1 1]
  show ?thesis using reg mem by simp
qed

text \<open>
  An image of 1 by 2000000 pixels for twitter (1600 by 900): the source is the taller
  one, the resize is asked for 1600 by 3200000000, and the second side is not a C
  integer. The error is raised whatever memory there is.
\<close>

theorem optimize_for_platform_thin_image_counterexample:
  "map_of SOCIAL_MEDIA_SIZES ''twitter'' = Some (1600, 900)
   \<and> optimize_for_platform sample_env 1
       \<lparr>oid = 0, width = 1, height = 2000000, mode = ''L''\<rparr> ''twitter''
     = Inl (Exc ''OverflowError'' ''signed integer is greater than maximum'')"
  by code_simp

text \<open>
  One run through each branch: the direct resize (a square RGBA image for a square
  target), the wider source cut at the sides, and the taller source, first raised to the
  minimum height, cut at top and bottom. Then an image of 1 by 3000 pixels for twitter,
  where the resize is asked for 1600 by 4800000, with memory for a thousand million
  pixels: the MemoryError of the allocation is the error of the function.
\<close>

lemma optimize_for_platform_branches:
  "optimize_for_platform sample_env 1 \<lparr>oid = 0, width = 1000, height = 1000, mode = ''RGBA''\<rparr>
     ''instagram'' = Inr \<lparr>oid = 3, width = 1080, height = 1080, mode = ''RGB''\<rparr>"
  "optimize_for_platform sample_env 1 \<lparr>oid = 0, width = 3000, height = 1000, mode = ''RGB''\<rparr>
     ''instagram'' = Inr \<lparr>oid = 4, width = 1080, height = 1080, mode = ''RGB''\<rparr>"
  "optimize_for_platform sample_env 1 \<lparr>oid = 0, width = 100, height = 300, mode = ''L''\<rparr>
     ''youtube_thumbnail'' = Inr \<lparr>oid = 4, width = 1280, height = 720, mode = ''L''\<rparr>"
  "optimize_for_platform
     (sample_env\<lparr>resize_fails := (\<lambda>img sz. if 1000000000 < fst sz * snd sz
                                            then Some (Exc ''MemoryError'' [])
                                            else None)\<rparr>)
     1 \<lparr>oid = 0, width = 1, height = 3000, mode = ''L''\<rparr> ''twitter''
     = Inl (Exc ''MemoryError'' [])"
  by code_simp+

lemma clamp01_number:
  assumes "as_number v = Some x"
  shows "\<exists>q. clamp01 v = Inr (Num q) \<and> 0 \<le> q \<and> q \<le> 1"
  using assms by (cases x) (auto simp add: clamp01_def py_min_def py_max_def)

text \<open>
  C2. A bounding box that is a list of four numbers (floats, including NaN and the
  infinities, ints or bools) passes the validation without an exception; the box returned
  has four finite coordinates in [0,1] with x2 > x1 and y2 > y1, and it is the full-image
  box (0,0,1,1) whenever the box of the clamped coordinates is degenerate.
\<close>

theorem validate_bounding_box_region:
  assumes "as_number a \<noteq> None" and "as_number b \<noteq> None"
    and "as_number c \<noteq> None" and "as_number d \<noteq> None"
  shows "(\<exists>x1 y1 x2 y2.
            validate_bounding_box (PList [a, b, c, d]) = Inr [Num x1, Num y1, Num x2, Num y2]
            \<and> 0 \<le> x1 \<and> x1 \<le> 1 \<and> 0 \<le> y1 \<and> y1 \<le> 1
            \<and> 0 \<le> x2 \<and> x2 \<le> 1 \<and> 0 \<le> y2 \<and> y2 \<le> 1
            \<and> x1 < x2 \<and> y1 < y2)
       \<and> (\<forall>ca cb cc cd.
             clamp01 a = Inr ca \<and> clamp01 b = Inr cb \<and> clamp01 c = Inr cc
             \<and> clamp01 d = Inr cd \<and> (py_le cc ca \<or> py_le cd cb)
             \<longrightarrow> validate_bounding_box (PList [a, b, c, d]) = Inr full_image)"
proof -
  from assms obtain qa qb qc qd where
    ca: "clamp01 a = Inr (Num qa)" "0 \<le> qa" "qa \<le> 1" and
    cb: "clamp01 b = Inr (Num qb)" "0 \<le> qb" "qb \<le> 1" and
    cc: "clamp01 c = Inr (Num qc)" "0 \<le> qc" "qc \<le> 1" and
    cd: "clamp01 d = Inr (Num qd)" "0 \<le> qd" "qd \<le> 1"
    using clamp01_number by (metis not_Some_eq)
  have val: "validate_bounding_box (PList [a, b, c, d]) =
               (if qc \<le> qa \<or> qd \<le> qb then Inr full_image
                else Inr [Num qa, Num qb, Num qc, Num qd])"
    by (simp add: validate_bounding_box_def ca cb cc cd le_less)
  show ?thesis
  proof (cases "qc \<le> qa \<or> qd \<le> qb")
    case True
    then have "validate_bounding_box (PList [a, b, c, d]) = Inr [Num 0, Num 0, Num 1, Num 1]"
      by (simp add: val full_image_def)
    then show ?thesis by (simp add: full_image_def)
  next
    case False
    then have "validate_bounding_box (PList [a, b, c, d]) = Inr [Num qa, Num qb, Num qc, Num qd]"
      by (simp add: val)
    moreover have "qa < qc" "qb < qd" using False by auto
    ultimately show ?thesis using ca cb cc cd False by (auto simp add: le_less)
  qed
qed

theorem validate_bounding_box_region_witness:
  "as_number (PNum (Num (3 / 2))) \<noteq> None \<and> as_number (PInt 0) \<noteq> None
   \<and> as_number (PNum (Num (1 / 2))) \<noteq> None \<and> as_number (PNum NaN) \<noteq> None
   \<and> clamp01 (PNum (Num (3 / 2))) = Inr (Num 1) \<and> clamp01 (PInt 0) = Inr (Num 0)
   \<and> clamp01 (PNum (Num (1 / 2))) = Inr (Num (1 / 2)) \<and> clamp01 (PNum NaN) = Inr (Num 1)
   \<and> py_le (Num (1 / 2)) (Num 1)
   \<and> validate_bounding_box
         (PList [PNum (Num (3 / 2)), PInt 0, PNum (Num (1 / 2)), PNum NaN]) = Inr full_image"
  using validate_bounding_box_region
          [of "PNum (Num (3 / 2))" "PInt 0" "PNum (Num (1 / 2))" "PNum NaN"]
  by (simp add: clamp01_def py_min_def py_max_def)

lemma crop_window_full:
  "crop_window img full_image =
     Inr (max 0 (0 - trunc (of_int (width img) * (2 / 10))),
          max 0 (0 - trunc (of_int (height img) * (2 / 10))),
          min (width img) (width img + trunc (of_int (width img) * (2 / 10))),
          min (height img) (height img + trunc (of_int (height img) * (2 / 10))))"
  by (simp add: crop_window_def full_image_def trunc_def Let_def)

lemma trunc_sign:
  "0 \<le> q \<Longrightarrow> 0 \<le> trunc q"
  "q \<le> 0 \<Longrightarrow> trunc q \<le> 0"
  by (auto simp add: trunc_def ceiling_le_iff)

lemma smart_crop_full:
  "smart_crop_gemini ev new img full_image =
     (if 0 < width img \<and> 0 < height img
      then Inr \<lparr>oid = new, width = width img, height = height img,
               mode = fromarray_mode ev (mode img)\<rparr>
      else Inr img)"
proof -
  have len: "full_image \<noteq> [] \<and> length full_image = 4" by (simp add: full_image_def)
  show ?thesis
  proof (cases "0 < width img \<and> 0 < height img")
    case True
    then have "0 \<le> trunc (of_int (width img) * (2 / 10))"
      and "0 \<le> trunc (of_int (height img) * (2 / 10))"
      by (auto intro!: trunc_sign(1))
    with True show ?thesis
      by (simp add: smart_crop_gemini_def len crop_window_full Let_def)
  next
    case False
    then consider "width img \<le> 0" | "height img \<le> 0" by linarith
    then show ?thesis
    proof cases
      case 1
      have "trunc (of_int (width img) * (2 / 10)) \<le> 0"
        using 1 by (intro trunc_sign(2)) simp
      then have "min (width img) (width img + trunc (of_int (width img) * (2 / 10))) \<le> 0"
        using 1 by simp
      then show ?thesis using False
        by (auto simp add: smart_crop_gemini_def len crop_window_full Let_def)
    next
      case 2
      have "trunc (of_int (height img) * (2 / 10)) \<le> 0"
        using 2 by (intro trunc_sign(2)) simp
      then have "min (height img) (height img + trunc (of_int (height img) * (2 / 10))) \<le> 0"
        using 2 by simp
      then show ?thesis using False
        by (auto simp add: smart_crop_gemini_def len crop_window_full Let_def)
    qed
  qed
qed

lemma smart_crop_gemini_returns:
  "\<exists>out. smart_crop_gemini ev new img bounding_box = Inr out"
  by (simp add: smart_crop_gemini_def Let_def split: sum.splits prod.splits)

text \<open>
  C6. \<open>smart_crop_gemini\<close> returns an image for every image and every list of numbers
  (no exception leaves it); when the padded and clamped window has x1 >= x2 or y1 >= y2
  or x2 <= 0 or y2 <= 0 the result is the very image it was given; and for the full-image
  box (0,0,1,1) the result has the width and the height of the input.
\<close>

theorem smart_crop_gemini_safe:
  "(\<exists>out. smart_crop_gemini ev new img bounding_box = Inr out)
   \<and> (\<forall>x1 y1 x2 y2.
         crop_window img bounding_box = Inr (x1, y1, x2, y2)
         \<and> (x1 \<ge> x2 \<or> y1 \<ge> y2 \<or> x2 \<le> 0 \<or> y2 \<le> 0)
         \<longrightarrow> smart_crop_gemini ev new img bounding_box = Inr img)
   \<and> (\<exists>out. smart_crop_gemini ev new img full_image = Inr out
             \<and> width out = width img \<and> height out = height img)"
proof (intro conjI allI impI)
  show "\<exists>out. smart_crop_gemini ev new img bounding_box = Inr out"
    by (rule smart_crop_gemini_returns)
next
  fix x1 y1 x2 y2
  assume "crop_window img bounding_box = Inr (x1, y1, x2, y2)
          \<and> (x1 \<ge> x2 \<or> y1 \<ge> y2 \<or> x2 \<le> 0 \<or> y2 \<le> 0)"
  then show "smart_crop_gemini ev new img bounding_box = Inr img"
    by (auto simp add: smart_crop_gemini_def Let_def)
next
  show "\<exists>out. smart_crop_gemini ev new img full_image = Inr out
             \<and> width out = width img \<and> height out = height img"
    by (simp add: smart_crop_full)
qed

theorem smart_crop_gemini_safe_witness:
  "crop_window \<lparr>oid = 0, width = 100, height = 50, mode = ''RGB''\<rparr>
      [Num (1 / 2), Num (1 / 2), Num (1 / 4), Num 1] = Inr (55, 20, 20, 50)
   \<and> (55::int) \<ge> 20
   \<and> smart_crop_gemini sample_env 1 \<lparr>oid = 0, width = 100, height = 50, mode = ''RGB''\<rparr>
        [Num (1 / 2), Num (1 / 2), Num (1 / 4), Num 1]
      = Inr \<lparr>oid = 0, width = 100, height = 50, mode = ''RGB''\<rparr>"
proof -
  have w: "crop_window \<lparr>oid = 0, width = 100, height = 50, mode = ''RGB''\<rparr>
      [Num (1 / 2), Num (1 / 2), Num (1 / 4), Num 1] = Inr (55, 20, 20, 50)"
    by (simp add: crop_window_def trunc_def Let_def)
  from smart_crop_gemini_safe[of sample_env 1
         "\<lparr>oid = 0, width = 100, height = 50, mode = ''RGB''\<rparr>"
         "[Num (1 / 2), Num (1 / 2), Num (1 / 4), Num 1]"] w
  show ?thesis by simp
qed

lemma split_from_nonempty: "split_from sep acc s \<noteq> []"
  by (induction sep acc s rule: split_from.induct) simp_all

lemma split_from_two:
  "contains s sep \<Longrightarrow> sep \<noteq> [] \<Longrightarrow> 2 \<le> length (split_from sep acc s)"
proof (induction s arbitrary: acc)
  case Nil
  then show ?case by simp
next
  case (Cons c cs)
  show ?case
  proof (cases "startswith (c # cs) sep")
    case True
    then show ?thesis
      using split_from_nonempty[of sep "[]" "drop (length sep - 1) cs"]
      by (cases "split_from sep [] (drop (length sep - 1) cs)") simp_all
  next
    case False
    with Cons.prems have "contains cs sep" by simp
    from Cons.IH[OF this Cons.prems(2)] False show ?thesis by simp
  qed
qed

lemma extract_json_returns: "\<exists>json_str. extract_json response_text = Inr json_str"
proof -
  have a: "contains response_text ''```json'' \<Longrightarrow>
           \<exists>rest. item (split response_text ''```json'') 1 = Inr rest"
    using split_from_two[of response_text "''```json''" "[]"]
    by (simp add: item_def split_def)
  have b: "\<exists>inner. item (split rest ''```'') 0 = Inr inner" for rest
    using split_from_nonempty[of "''```''" "[]" rest]
    by (simp add: item_def split_def)
  have c: "contains response_text ''```'' \<Longrightarrow>
           \<exists>inner. item (split response_text ''```'') 1 = Inr inner"
    using split_from_two[of response_text "''```''" "[]"]
    by (simp add: item_def split_def)
  show ?thesis
  proof (cases "contains response_text ''```json''")
    case True
    from a[OF True] obtain rest where r: "item (split response_text ''```json'') 1 = Inr rest"
      by blast
    from b[of rest] obtain inner where "item (split rest ''```'') 0 = Inr inner" by blast
    with r True show ?thesis by (simp add: extract_json_def)
  next
    case False
    show ?thesis
    proof (cases "contains response_text ''```''")
      case True
      from c[OF True] obtain inner where "item (split response_text ''```'') 1 = Inr inner"
        by blast
      with True False show ?thesis by (simp add: extract_json_def)
    next
      case F2: False
      with False show ?thesis by (simp add: extract_json_def)
    qed
  qed
qed

lemma process_with_gemini_parsed:
  assumes "gemini_loaded ms = Some True"
    and "fs image_path = Some image_bytes"
    and "gemini_model ms = Some generate_content"
    and "generate_content (platform_instruction platform)
           (replace CHR ''_'' CHR '' '' platform) image_bytes = Inr (Inr response_text)"
    and "extract_json response_text = Inr json_str"
  shows "process_with_gemini ev fs image_path ms platform =
           (case parse_result ev platform json_str of
              Inr r \<Rightarrow> Inr r
            | Inl e \<Rightarrow> Inr (parse_failed_result platform))"
  using assms by (simp add: process_with_gemini_def Let_def split: sum.splits)

lemma catch_all_returns:
  "\<exists>r. (case body of Inr r \<Rightarrow> Inr r | Inl e \<Rightarrow> Inr (handler e)) = Inr r"
  by (cases body) simp_all

lemma process_with_gemini_returns:
  "\<exists>r. process_with_gemini ev fs image_path ms platform = Inr r"
  unfolding process_with_gemini_def Let_def by (rule catch_all_returns)

text \<open>
  C3 (as amended). With a loaded model whose response has a text: when the JSON text of
  the response does not parse, or parses to a value that is not an object,
  \<open>process_with_gemini\<close> returns the failure-fallback triple ("Image analysis failed due to
  processing error.", the full-image box, "#" and the platform). When it parses to an
  object, a missing key is no failure: the caption defaults to "No caption generated.",
  the bounding box to the full image, the hashtags to "#" and the platform, the values
  of the keys present are kept, and the fallback triple is returned only if validating
  the box raises.
\<close>

theorem process_with_gemini_response:
  assumes "gemini_loaded ms = Some True"
    and "fs image_path = Some image_bytes"
    and "gemini_model ms = Some generate_content"
    and "generate_content (platform_instruction platform)
           (replace CHR ''_'' CHR '' '' platform) image_bytes = Inr (Inr response_text)"
    and "extract_json response_text = Inr json_str"
  shows "(\<forall>e. json_loads ev json_str = Inl e \<longrightarrow>
            process_with_gemini ev fs image_path ms platform
              = Inr (parse_failed_result platform))
       \<and> (\<forall>v. json_loads ev json_str = Inr v \<and> (\<forall>kvs. v \<noteq> PDict kvs) \<longrightarrow>
            process_with_gemini ev fs image_path ms platform
              = Inr (parse_failed_result platform))
       \<and> (\<forall>kvs. json_loads ev json_str = Inr (PDict kvs) \<longrightarrow>
            process_with_gemini ev fs image_path ms platform =
              (case validate_bounding_box
                      (case map_of kvs ''bounding_box'' of
                         Some b \<Rightarrow> b
                       | None \<Rightarrow> PList [PNum (Num 0), PNum (Num 0), PNum (Num 1),
                                        PNum (Num 1)]) of
                 Inl e \<Rightarrow> Inr (parse_failed_result platform)
               | Inr box \<Rightarrow>
                   Inr (case map_of kvs ''caption'' of
                          Some c \<Rightarrow> c
                        | None \<Rightarrow> PStr ''No caption generated.'',
                        box,
                        case map_of kvs ''hashtags'' of
                          Some h \<Rightarrow> h
                        | None \<Rightarrow> PStr (''#'' @ platform))))
       \<and> (json_loads ev json_str = Inr (PDict []) \<longrightarrow>
            process_with_gemini ev fs image_path ms platform
              = Inr (PStr ''No caption generated.'', full_image, PStr (''#'' @ platform)))"
proof -
  note p = process_with_gemini_parsed
             [of ms fs image_path image_bytes generate_content platform response_text
                 json_str ev, OF assms]
  have full: "validate_bounding_box (PList [PNum (Num 0), PNum (Num 0), PNum (Num 1), PNum (Num 1)])
                = Inr full_image"
    by (simp add: validate_bounding_box_def clamp01_def py_min_def py_max_def full_image_def)
  have 1: "json_loads ev json_str = Inl e \<Longrightarrow>
             process_with_gemini ev fs image_path ms platform
               = Inr (parse_failed_result platform)" for e
    by (simp add: p parse_result_def)
  have 2: "json_loads ev json_str = Inr v \<Longrightarrow> (\<forall>kvs. v \<noteq> PDict kvs) \<Longrightarrow>
             process_with_gemini ev fs image_path ms platform
               = Inr (parse_failed_result platform)" for v
    by (cases v) (simp_all add: p parse_result_def)
  have 3: "json_loads ev json_str = Inr (PDict kvs) \<Longrightarrow>
            process_with_gemini ev fs image_path ms platform =
              (case validate_bounding_box
                      (case map_of kvs ''bounding_box'' of
                         Some b \<Rightarrow> b
                       | None \<Rightarrow> PList [PNum (Num 0), PNum (Num 0), PNum (Num 1),
                                        PNum (Num 1)]) of
                 Inl e \<Rightarrow> Inr (parse_failed_result platform)
               | Inr box \<Rightarrow>
                   Inr (case map_of kvs ''caption'' of
                          Some c \<Rightarrow> c
                        | None \<Rightarrow> PStr ''No caption generated.'',
                        box,
                        case map_of kvs ''hashtags'' of
                          Some h \<Rightarrow> h
                        | None \<Rightarrow> PStr (''#'' @ platform)))" for kvs
    by (simp add: p parse_result_def split: sum.splits option.splits)
  have 4: "json_loads ev json_str = Inr (PDict []) \<Longrightarrow>
            process_with_gemini ev fs image_path ms platform
              = Inr (PStr ''No caption generated.'', full_image, PStr (''#'' @ platform))"
    by (simp add: 3 full)
  from 1 2 3 4 show ?thesis by blast
qed

theorem process_with_gemini_response_witness:
  "extract_json ''not json'' = Inr ''not json''
   \<and> json_loads sample_env ''not json''
       = Inl (Exc ''JSONDecodeError'' ''Expecting value: line 1 column 1 (char 0)'')
   \<and> process_with_gemini sample_env [''temp/a.jpeg'' \<mapsto> ''PNG''] ''temp/a.jpeg''
        (sample_models ''not json'') ''twitter''
       = Inr (PStr ''Image analysis failed due to processing error.'',
              [Num 0, Num 0, Num 1, Num 1], PStr ''#twitter'')"
proof -
  have e: "extract_json ''not json'' = Inr ''not json''"
    by (simp add: extract_json_def startswith_def strip_def whitespace_def)
  have j: "json_loads sample_env ''not json''
       = Inl (Exc ''JSONDecodeError'' ''Expecting value: line 1 column 1 (char 0)'')"
    by (simp add: sample_env_def sample_loads_def json_caption_def quoted_def)
  from process_with_gemini_response
         [of "sample_models ''not json''" "[''temp/a.jpeg'' \<mapsto> ''PNG'']" "''temp/a.jpeg''"
             "''PNG''" "\<lambda>instruction name image_bytes. Inr (Inr ''not json'')" "''twitter''"
             "''not json''" "''not json''" sample_env] e j
  show ?thesis
    by (simp add: sample_models_def parse_failed_result_def full_image_def)
qed

theorem process_with_gemini_missing_keys_counterexample:
  "extract_json ''{}'' = Inr ''{}''
   \<and> json_loads sample_env ''{}'' = Inr (PDict [])
   \<and> process_with_gemini sample_env [''temp/a.jpeg'' \<mapsto> ''PNG''] ''temp/a.jpeg''
        (sample_models ''{}'') ''twitter''
       = Inr (PStr ''No caption generated.'', [Num 0, Num 0, Num 1, Num 1], PStr ''#twitter'')
   \<and> process_with_gemini sample_env [''temp/a.jpeg'' \<mapsto> ''PNG''] ''temp/a.jpeg''
        (sample_models ''{}'') ''twitter''
       \<noteq> Inr (PStr ''Image analysis failed due to processing error.'',
              [Num 0, Num 0, Num 1, Num 1], PStr ''#twitter'')"
proof -
  have e: "extract_json ''{}'' = Inr ''{}''"
    by (simp add: extract_json_def startswith_def strip_def whitespace_def)
  have j: "json_loads sample_env ''{}'' = Inr (PDict [])"
    by (simp add: sample_env_def sample_loads_def)
  have "process_with_gemini sample_env [''temp/a.jpeg'' \<mapsto> ''PNG''] ''temp/a.jpeg''
        (sample_models ''{}'') ''twitter''
       = Inr (PStr ''No caption generated.'', [Num 0, Num 0, Num 1, Num 1], PStr ''#twitter'')"
    by (simp add: process_with_gemini_parsed[of _ _ _ "''PNG''"
                    "\<lambda>instruction name image_bytes. Inr (Inr ''{}'')" _ "''{}''" "''{}''"]
                  sample_models_def e j parse_result_def validate_bounding_box_def clamp01_def
                  py_min_def py_max_def full_image_def)
  with e j show ?thesis by simp
qed

text \<open>
  C4 (as amended). With no model loaded, \<open>process_with_gemini\<close> returns, for every image
  path and platform, the fixed triple ("No caption could be generated. Gemini model not
  loaded.", the full-image box, "#ai #image"): its hashtags do not depend on the
  platform. The pipeline does not call the locator in that case; its own step gives
  ("Image analysis not available. Gemini model not loaded.", the full-image box, "#" and
  the platform).
\<close>

theorem not_loaded_results:
  "(gemini_loaded ms \<noteq> Some True \<longrightarrow>
      process_with_gemini ev fs image_path ms platform
        = Inr (PStr ''No caption could be generated. Gemini model not loaded.'',
               [Num 0, Num 0, Num 1, Num 1], PStr ''#ai #image''))
   \<and> (AI_MODELS = None \<or> (\<exists>m. AI_MODELS = Some m \<and> gemini_loaded m \<noteq> Some True) \<longrightarrow>
      locate ev fs image_path AI_MODELS platform
        = (PStr ''Image analysis not available. Gemini model not loaded.'',
           [Num 0, Num 0, Num 1, Num 1], PStr (''#'' @ platform)))"
proof (intro conjI impI)
  assume "gemini_loaded ms \<noteq> Some True"
  then have "\<not> (case gemini_loaded ms of Some b \<Rightarrow> b | None \<Rightarrow> False)"
    by (cases "gemini_loaded ms") auto
  then show "process_with_gemini ev fs image_path ms platform
        = Inr (PStr ''No caption could be generated. Gemini model not loaded.'',
               [Num 0, Num 0, Num 1, Num 1], PStr ''#ai #image'')"
    by (simp add: process_with_gemini_def not_loaded_result_def full_image_def)
next
  assume "AI_MODELS = None \<or> (\<exists>m. AI_MODELS = Some m \<and> gemini_loaded m \<noteq> Some True)"
  then show "locate ev fs image_path AI_MODELS platform
        = (PStr ''Image analysis not available. Gemini model not loaded.'',
           [Num 0, Num 0, Num 1, Num 1], PStr (''#'' @ platform))"
    by (auto simp add: locate_def locate_with_def not_available_def full_image_def split: option.splits)
qed

theorem not_loaded_results_witness:
  "gemini_loaded \<lparr>gemini_model = None, gemini_loaded = Some False\<rparr> \<noteq> Some True
   \<and> process_with_gemini sample_env Map.empty ''temp/a.jpeg''
        \<lparr>gemini_model = None, gemini_loaded = Some False\<rparr> ''pinterest''
       = Inr (PStr ''No caption could be generated. Gemini model not loaded.'',
              [Num 0, Num 0, Num 1, Num 1], PStr ''#ai #image'')
   \<and> locate sample_env Map.empty ''temp/a.jpeg''
        (Some \<lparr>gemini_model = None, gemini_loaded = Some False\<rparr>) ''pinterest''
       = (PStr ''Image analysis not available. Gemini model not loaded.'',
          [Num 0, Num 0, Num 1, Num 1], PStr ''#pinterest'')"
  using not_loaded_results
          [of "\<lparr>gemini_model = None, gemini_loaded = Some False\<rparr>" sample_env Map.empty
              "''temp/a.jpeg''" "''pinterest''"
              "Some \<lparr>gemini_model = None, gemini_loaded = Some False\<rparr>"]
  by simp

theorem process_with_gemini_not_loaded_counterexample:
  "process_with_gemini sample_env Map.empty ''temp/a.jpeg''
        \<lparr>gemini_model = None, gemini_loaded = Some False\<rparr> ''pinterest''
     = Inr (PStr ''No caption could be generated. Gemini model not loaded.'',
            [Num 0, Num 0, Num 1, Num 1], PStr ''#ai #image'')
   \<and> PStr ''#ai #image'' \<noteq> PStr (''#'' @ ''pinterest'')"
  by (simp add: process_with_gemini_def not_loaded_result_def full_image_def)








lemma process_image_complete_returns:
  "\<exists>r fs'. process_image_complete ev fs image_bytes platform format smart_crop_enabled
              enhance_image_enabled confidence AI_MODELS = (Inr r, fs')"
proof (cases "process_body ev fs image_bytes platform format smart_crop_enabled AI_MODELS")
  case (Pair outcome fs')
  then show ?thesis
    by (cases outcome) (simp_all add: process_image_complete_body)
qed

lemma process_image_complete_undecodable:
  assumes "image_open ev image_bytes = Inl e"
  shows "process_image_complete ev fs image_bytes platform format smart_crop_enabled
           enhance_image_enabled confidence AI_MODELS = (Inr (error_record e platform), fs)"
  using assms by (simp add: process_image_complete_body process_body_def process_body_with_def locate_def[symmetric] Let_def)

text \<open>
  C7. \<open>process_image_complete\<close> returns a record for every input: no exception leaves it.
  When the bytes cannot be decoded and the platform is a key of the registry, the record
  is the error record whose message is "Processing failed: " followed by the text of the
  decoder's exception, whose platform is the display name of the platform argument and
  whose size is the registered size; the file system is left as it was.
\<close>

theorem process_image_complete_never_raises:
  "(\<exists>r fs'. process_image_complete ev fs image_bytes platform format smart_crop_enabled
               enhance_image_enabled confidence AI_MODELS = (Inr r, fs'))
   \<and> (\<forall>e sz. image_open ev image_bytes = Inl e \<and> map_of SOCIAL_MEDIA_SIZES platform = Some sz
         \<longrightarrow> process_image_complete ev fs image_bytes platform format smart_crop_enabled
               enhance_image_enabled confidence AI_MODELS
             = (Inr \<lparr>r_error = Some (''Processing failed: '' @ exc_msg e),
                     r_platform = title (replace CHR ''_'' CHR '' '' platform),
                     r_size = sz,
                     r_optimized_image = None,
                     r_caption_text = ''Image processing failed.'',
                     r_hashtags = ''#'' @ platform,
                     r_enhanced = False,
                     r_smart_cropped = False\<rparr>, fs))"
proof (intro conjI allI impI)
  show "\<exists>r fs'. process_image_complete ev fs image_bytes platform format smart_crop_enabled
               enhance_image_enabled confidence AI_MODELS = (Inr r, fs')"
    by (rule process_image_complete_returns)
next
  fix e sz
  assume "image_open ev image_bytes = Inl e \<and> map_of SOCIAL_MEDIA_SIZES platform = Some sz"
  then show "process_image_complete ev fs image_bytes platform format smart_crop_enabled
               enhance_image_enabled confidence AI_MODELS
             = (Inr \<lparr>r_error = Some (''Processing failed: '' @ exc_msg e),
                     r_platform = title (replace CHR ''_'' CHR '' '' platform),
                     r_size = sz,
                     r_optimized_image = None,
                     r_caption_text = ''Image processing failed.'',
                     r_hashtags = ''#'' @ platform,
                     r_enhanced = False,
                     r_smart_cropped = False\<rparr>, fs)"
    by (simp add: process_image_complete_undecodable error_record_def)
qed

theorem process_image_complete_never_raises_witness:
  "image_open sample_env ''junk''
     = Inl (Exc ''UnidentifiedImageError'' ''cannot identify image file'')
   \<and> map_of SOCIAL_MEDIA_SIZES ''instagram_story'' = Some (1080, 1920)
   \<and> process_image_complete sample_env Map.empty ''junk'' ''instagram_story'' ''JPEG'' False
        False (3 / 10) None
       = (Inr \<lparr>r_error = Some ''Processing failed: cannot identify image file'',
               r_platform = ''Instagram Story'',
               r_size = (1080, 1920),
               r_optimized_image = None,
               r_caption_text = ''Image processing failed.'',
               r_hashtags = ''#instagram_story'',
               r_enhanced = False,
               r_smart_cropped = False\<rparr>, Map.empty)"
proof -
  have o: "image_open sample_env ''junk''
     = Inl (Exc ''UnidentifiedImageError'' ''cannot identify image file'')"
    by (simp add: sample_env_def)
  have s: "map_of SOCIAL_MEDIA_SIZES ''instagram_story'' = Some (1080, 1920)"
    by (simp add: SOCIAL_MEDIA_SIZES_def)
  have t: "title (replace CHR ''_'' CHR '' '' ''instagram_story'') = ''Instagram Story''"
    by (simp add: title_def replace_def upper_char_def lower_char_def is_cased_def
          ascii_upper_def ascii_lower_def)
  from process_image_complete_never_raises
         [of sample_env Map.empty "''junk''" "''instagram_story''" "''JPEG''" False False
             "3 / 10" None] o s t
  show ?thesis by simp
qed

lemma process_body_unregistered:
  assumes "map_of SOCIAL_MEDIA_SIZES platform = None"
  shows "\<exists>e fs'. process_body ev fs image_bytes platform format smart_crop_enabled AI_MODELS
                  = (Inl e, fs')"
  using assms
  by (simp add: process_body_def process_body_with_def locate_def[symmetric] Let_def split: sum.splits option.splits prod.splits)

text \<open>
  C9. For a platform that is not a key of the registry, \<open>process_image_complete\<close> still
  returns a record, which is an error record (the key \<open>error\<close> is present) whose size is
  the placeholder (0, 0).
\<close>

theorem unregistered_platform_error_record:
  assumes "map_of SOCIAL_MEDIA_SIZES platform = None"
  shows "\<exists>r fs'. process_image_complete ev fs image_bytes platform format smart_crop_enabled
                   enhance_image_enabled confidence AI_MODELS = (Inr r, fs')
                 \<and> r_error r \<noteq> None \<and> r_size r = (0, 0)"
proof -
  from process_body_unregistered[OF assms] obtain e fs' where
    "process_body ev fs image_bytes platform format smart_crop_enabled AI_MODELS = (Inl e, fs')"
    by blast
  then have "process_image_complete ev fs image_bytes platform format smart_crop_enabled
               enhance_image_enabled confidence AI_MODELS = (Inr (error_record e platform), fs')"
    by (simp add: process_image_complete_body)
  moreover have "r_error (error_record e platform) \<noteq> None"
    and "r_size (error_record e platform) = (0, 0)"
    using assms by (simp_all add: error_record_def)
  ultimately show ?thesis by blast
qed

lemma capitalised_platform_run:
  "fst (process_image_complete sample_env Map.empty ''PNG'' ''Instagram'' ''JPEG'' False False
          (3 / 10) None)
     = Inr \<lparr>r_error = Some (''Processing failed: '' @ [CHR 0x27] @ ''Instagram'' @ [CHR 0x27]),
            r_platform = ''Instagram'',
            r_size = (0, 0),
            r_optimized_image = None,
            r_caption_text = ''Image processing failed.'',
            r_hashtags = ''#Instagram'',
            r_enhanced = False,
            r_smart_cropped = False\<rparr>"
  by code_simp

theorem unregistered_platform_error_record_witness:
  "map_of SOCIAL_MEDIA_SIZES ''Instagram'' = None
   \<and> (\<exists>r fs'. process_image_complete sample_env Map.empty ''PNG'' ''Instagram'' ''JPEG'' False
                 False (3 / 10) None = (Inr r, fs')
               \<and> r_error r \<noteq> None \<and> r_size r = (0, 0))"
proof -
  have n: "map_of SOCIAL_MEDIA_SIZES ''Instagram'' = None"
    by (simp add: SOCIAL_MEDIA_SIZES_def)
  from unregistered_platform_error_record[OF n] n show ?thesis by blast
qed

lemma original_path_head: "\<exists>rest. original_path_of ev format = CHR ''t'' # rest"
  by (simp add: original_path_of_def os_path_join_def TEMP_FOLDER_def startswith_def)

lemma caption_path_head:
  "\<exists>rest. caption_path_of ev platform = CHR ''/'' # rest
        \<or> caption_path_of ev platform = CHR ''o'' # rest"
  by (cases platform)
     (simp_all add: caption_path_of_def os_path_join_def CAPTION_FOLDER_def startswith_def)

lemma caption_path_not_original: "caption_path_of ev platform \<noteq> original_path_of ev format"
  using original_path_head[of ev format] caption_path_head[of ev platform] by auto

lemma process_body_caption_file:
  assumes "process_body ev fs image_bytes platform format smart_crop_enabled AI_MODELS
             = (Inr r, fs')"
  shows "fs' (caption_path_of ev platform)
           = Some (r_caption_text r @ [CHR 0x0A, CHR 0x0A] @ r_hashtags r)"
  using assms caption_path_not_original[of ev platform format]
  by (auto simp add: process_body_def process_body_with_def locate_def[symmetric] Let_def
        split: sum.splits option.splits prod.splits if_splits)

lemma parse_sidecar_roundtrip:
  assumes "CHR 0x0A \<notin> set caption"
  shows "parse_sidecar (caption @ [CHR 0x0A, CHR 0x0A] @ hashtags) = Some (caption, hashtags)"
proof -
  have "dropWhile (\<lambda>c. c \<noteq> CHR 0x0A) (caption @ [CHR 0x0A, CHR 0x0A] @ hashtags)
          = CHR 0x0A # CHR 0x0A # hashtags"
    using assms by (induction caption) auto
  moreover have "takeWhile (\<lambda>c. c \<noteq> CHR 0x0A) (caption @ [CHR 0x0A, CHR 0x0A] @ hashtags)
          = caption"
    using assms by (induction caption) auto
  ultimately show ?thesis by (simp add: parse_sidecar_def)
qed

text \<open>
  C8 (as amended). After a successful run the caption file, at the path built from the
  platform, the identifier and the timestamp, holds exactly the caption text, two line
  feeds, and the hashtags of the returned record. Reading it back as first line, blank
  line and the rest gives the caption and the hashtags of the record whenever the
  caption contains no line feed.
\<close>

theorem caption_sidecar_roundtrip:
  assumes "process_image_complete ev fs image_bytes platform format smart_crop_enabled
             enhance_image_enabled confidence AI_MODELS = (Inr r, fs')"
    and "r_error r = None"
  shows "fs' (caption_path_of ev platform)
           = Some (r_caption_text r @ [CHR 0x0A, CHR 0x0A] @ r_hashtags r)
       \<and> (CHR 0x0A \<notin> set (r_caption_text r) \<longrightarrow>
            parse_sidecar (r_caption_text r @ [CHR 0x0A, CHR 0x0A] @ r_hashtags r)
              = Some (r_caption_text r, r_hashtags r))"
proof -
  obtain outcome fs1 where
    b: "process_body ev fs image_bytes platform format smart_crop_enabled AI_MODELS
          = (outcome, fs1)"
    by (cases "process_body ev fs image_bytes platform format smart_crop_enabled AI_MODELS")
  have "outcome = Inr r \<and> fs1 = fs'"
  proof (cases outcome)
    case (Inl e)
    with b assms(1) have "r = error_record e platform"
      by (simp add: process_image_complete_body)
    with assms(2) show ?thesis by (simp add: error_record_def)
  next
    case (Inr r')
    with b assms(1) show ?thesis by (simp add: process_image_complete_body)
  qed
  with b have "process_body ev fs image_bytes platform format smart_crop_enabled AI_MODELS
                 = (Inr r, fs')"
    by simp
  from process_body_caption_file[OF this] parse_sidecar_roundtrip
  show ?thesis by blast
qed

lemma two_line_caption_run:
  "fst (process_image_complete sample_env Map.empty ''PNG'' ''twitter'' ''png'' False False
          (3 / 10) (Some (sample_models json_caption)))
     = Inr \<lparr>r_error = None,
            r_platform = ''Twitter'',
            r_size = (1600, 900),
            r_optimized_image = Some ''/media/optimized/twitter_0b1e_1700.png'',
            r_caption_text = ''Sea'' @ [CHR 0x0A] @ ''Sky'',
            r_hashtags = ''#twitter'',
            r_enhanced = False,
            r_smart_cropped = False\<rparr>"
  by code_simp

lemma two_line_caption_file:
  "snd (process_image_complete sample_env Map.empty ''PNG'' ''twitter'' ''png'' False False
          (3 / 10) (Some (sample_models json_caption)))
       (caption_path_of sample_env ''twitter'')
     = Some (''Sea'' @ [CHR 0x0A] @ ''Sky'' @ [CHR 0x0A, CHR 0x0A] @ ''#twitter'')"
  by code_simp

theorem caption_sidecar_roundtrip_witness:
  "fst (process_image_complete sample_env Map.empty ''PNG'' ''twitter'' ''png'' False False
          (3 / 10) None)
     = Inr \<lparr>r_error = None,
            r_platform = ''Twitter'',
            r_size = (1600, 900),
            r_optimized_image = Some ''/media/optimized/twitter_0b1e_1700.png'',
            r_caption_text = ''Image analysis not available. Gemini model not loaded.'',
            r_hashtags = ''#twitter'',
            r_enhanced = False,
            r_smart_cropped = False\<rparr>
   \<and> snd (process_image_complete sample_env Map.empty ''PNG'' ''twitter'' ''png'' False False
          (3 / 10) None) (caption_path_of sample_env ''twitter'')
     = Some (''Image analysis not available. Gemini model not loaded.''
             @ [CHR 0x0A, CHR 0x0A] @ ''#twitter'')
   \<and> parse_sidecar (''Image analysis not available. Gemini model not loaded.''
                    @ [CHR 0x0A, CHR 0x0A] @ ''#twitter'')
     = Some (''Image analysis not available. Gemini model not loaded.'', ''#twitter'')"
proof -
  define run where "run = process_image_complete sample_env Map.empty ''PNG'' ''twitter''
                            ''png'' False False (3 / 10) None"
  define r where "r = \<lparr>r_error = None,
            r_platform = ''Twitter'',
            r_size = (1600, 900),
            r_optimized_image = Some ''/media/optimized/twitter_0b1e_1700.png'',
            r_caption_text = ''Image analysis not available. Gemini model not loaded.'',
            r_hashtags = ''#twitter'',
            r_enhanced = False,
            r_smart_cropped = False\<rparr>"
  have f: "fst run = Inr r" unfolding run_def r_def by code_simp
  then have eq: "run = (Inr r, snd run)" by (cases run) simp
  have e: "r_error r = None" by (simp add: r_def)
  from caption_sidecar_roundtrip[OF eq[unfolded run_def] e] f
  show ?thesis by (simp add: r_def run_def)
qed

theorem caption_sidecar_roundtrip_counterexample:
  "fst (process_image_complete sample_env Map.empty ''PNG'' ''twitter'' ''png'' False False
          (3 / 10) (Some (sample_models json_caption)))
     = Inr \<lparr>r_error = None,
            r_platform = ''Twitter'',
            r_size = (1600, 900),
            r_optimized_image = Some ''/media/optimized/twitter_0b1e_1700.png'',
            r_caption_text = ''Sea'' @ [CHR 0x0A] @ ''Sky'',
            r_hashtags = ''#twitter'',
            r_enhanced = False,
            r_smart_cropped = False\<rparr>
   \<and> snd (process_image_complete sample_env Map.empty ''PNG'' ''twitter'' ''png'' False False
          (3 / 10) (Some (sample_models json_caption)))
       (caption_path_of sample_env ''twitter'')
     = Some (''Sea'' @ [CHR 0x0A] @ ''Sky'' @ [CHR 0x0A, CHR 0x0A] @ ''#twitter'')
   \<and> parse_sidecar (''Sea'' @ [CHR 0x0A] @ ''Sky'' @ [CHR 0x0A, CHR 0x0A] @ ''#twitter'')
     \<noteq> Some (''Sea'' @ [CHR 0x0A] @ ''Sky'', ''#twitter'')"
proof -
  have "parse_sidecar (''Sea'' @ [CHR 0x0A] @ ''Sky'' @ [CHR 0x0A, CHR 0x0A] @ ''#twitter'')
          = None"
    by (simp add: parse_sidecar_def)
  with two_line_caption_run two_line_caption_file show ?thesis by simp
qed

lemma apply_smart_crop_full:
  assumes "0 < width img" and "0 < height img" and "oid img \<noteq> new"
  shows "apply_smart_crop ev new img True full_image
           = (\<lparr>oid = new, width = width img, height = height img,
               mode = fromarray_mode ev (mode img)\<rparr>, True)"
proof -
  have "full_image \<noteq> []" by (simp add: full_image_def)
  with assms show ?thesis
    by (auto simp add: apply_smart_crop_def smart_crop_full)
qed

lemma process_body_smart_cropped:
  assumes o: "image_open ev image_bytes = Inr (w, h, m)"
    and w: "0 < w" and h: "0 < h"
    and l: "\<forall>original_data.
              image_save ev \<lparr>oid = 0, width = w, height = h, mode = m\<rparr>
                (original_path_of ev format)
                \<lparr>quality = None, optimize = False, subsampling = None\<rparr> = Inr original_data
              \<longrightarrow> fst (snd (locate ev (fs(original_path_of ev format \<mapsto> original_data))
                                (original_path_of ev format) AI_MODELS platform))
                    = full_image"
    and b: "process_body ev fs image_bytes platform format True AI_MODELS = (Inr r, fs')"
  shows "r_smart_cropped r"
proof -
  define img where "img = \<lparr>oid = 0, width = w, height = h, mode = m\<rparr>"
  have c: "apply_smart_crop ev 1 img True full_image
             = (\<lparr>oid = 1, width = w, height = h, mode = fromarray_mode ev m\<rparr>, True)"
    using apply_smart_crop_full[of img 1 ev] w h by (simp add: img_def)
  from b o l c show ?thesis
    unfolding process_body_def process_body_with_def locate_def[symmetric] Let_def img_def
    by (auto split: sum.splits option.splits prod.splits if_splits)
qed

text \<open>
  C10. When smart cropping is enabled, the decoded image has positive sides and the
  locate step yields the full-image box (0,0,1,1), a successful run reports
  \<open>smart_cropped\<close> as true: \<open>smart_crop_gemini\<close> returns a new image object (identity 1,
  the decoded image has identity 0) although its width and height are those of the
  decoded image.
\<close>

theorem full_region_reports_smart_cropped:
  assumes "image_open ev image_bytes = Inr (w, h, m)"
    and "0 < w" and "0 < h"
    and "\<forall>original_data.
              image_save ev \<lparr>oid = 0, width = w, height = h, mode = m\<rparr>
                (original_path_of ev format)
                \<lparr>quality = None, optimize = False, subsampling = None\<rparr> = Inr original_data
              \<longrightarrow> fst (snd (locate ev (fs(original_path_of ev format \<mapsto> original_data))
                                (original_path_of ev format) AI_MODELS platform))
                    = full_image"
    and "process_image_complete ev fs image_bytes platform format True
           enhance_image_enabled confidence AI_MODELS = (Inr r, fs')"
    and "r_error r = None"
  shows "r_smart_cropped r
       \<and> smart_crop_gemini ev 1 \<lparr>oid = 0, width = w, height = h, mode = m\<rparr> full_image
           = Inr \<lparr>oid = 1, width = w, height = h, mode = fromarray_mode ev m\<rparr>"
proof -
  obtain outcome fs1 where
    b: "process_body ev fs image_bytes platform format True AI_MODELS = (outcome, fs1)"
    by (cases "process_body ev fs image_bytes platform format True AI_MODELS")
  have "outcome = Inr r \<and> fs1 = fs'"
  proof (cases outcome)
    case (Inl e)
    with b assms(5) have "r = error_record e platform"
      by (simp add: process_image_complete_body)
    with assms(6) show ?thesis by (simp add: error_record_def)
  next
    case (Inr r')
    with b assms(5) show ?thesis by (simp add: process_image_complete_body)
  qed
  with b have "process_body ev fs image_bytes platform format True AI_MODELS = (Inr r, fs')"
    by simp
  from process_body_smart_cropped[OF assms(1-4) this]
  have "r_smart_cropped r" .
  moreover have "smart_crop_gemini ev 1 \<lparr>oid = 0, width = w, height = h, mode = m\<rparr> full_image
           = Inr \<lparr>oid = 1, width = w, height = h, mode = fromarray_mode ev m\<rparr>"
    using assms(2,3) by (simp add: smart_crop_full)
  ultimately show ?thesis by simp
qed

theorem full_region_reports_smart_cropped_witness:
  "image_open sample_env ''PNG'' = Inr (100, 100, ''RGB'')
   \<and> locate sample_env (Map.empty(original_path_of sample_env ''png'' \<mapsto> ''encoded''))
        (original_path_of sample_env ''png'') None ''twitter''
       = (PStr ''Image analysis not available. Gemini model not loaded.'', full_image,
          PStr ''#twitter'')
   \<and> fst (process_image_complete sample_env Map.empty ''PNG'' ''twitter'' ''png'' True False
            (3 / 10) None)
       = Inr \<lparr>r_error = None,
              r_platform = ''Twitter'',
              r_size = (1600, 900),
              r_optimized_image = Some ''/media/optimized/twitter_0b1e_1700.png'',
              r_caption_text = ''Image analysis not available. Gemini model not loaded.'',
              r_hashtags = ''#twitter'',
              r_enhanced = False,
              r_smart_cropped = True\<rparr>
   \<and> smart_crop_gemini sample_env 1 \<lparr>oid = 0, width = 100, height = 100, mode = ''RGB''\<rparr>
        full_image
       = Inr \<lparr>oid = 1, width = 100, height = 100, mode = ''RGB''\<rparr>"
proof -
  define run where "run = process_image_complete sample_env Map.empty ''PNG'' ''twitter''
                            ''png'' True False (3 / 10) None"
  define r where "r = \<lparr>r_error = None,
              r_platform = ''Twitter'',
              r_size = (1600, 900),
              r_optimized_image = Some ''/media/optimized/twitter_0b1e_1700.png'',
              r_caption_text = ''Image analysis not available. Gemini model not loaded.'',
              r_hashtags = ''#twitter'',
              r_enhanced = False,
              r_smart_cropped = True\<rparr>"
  have o: "image_open sample_env ''PNG'' = Inr (100, 100, ''RGB'')"
    by (simp add: sample_env_def)
  have l: "locate sample_env fs0 path None ''twitter''
       = (PStr ''Image analysis not available. Gemini model not loaded.'', full_image,
          PStr ''#twitter'')" for fs0 path
    by (simp add: locate_def locate_with_def not_available_def)
  have f: "fst run = Inr r" unfolding run_def r_def by code_simp
  then have eq: "run = (Inr r, snd run)" by (cases run) simp
  have e: "r_error r = None" by (simp add: r_def)
  have m: "fromarray_mode sample_env ''RGB'' = ''RGB''" by (simp add: sample_env_def)
  have h4: "\<forall>original_data.
              image_save sample_env \<lparr>oid = 0, width = 100, height = 100, mode = ''RGB''\<rparr>
                (original_path_of sample_env ''png'')
                \<lparr>quality = None, optimize = False, subsampling = None\<rparr> = Inr original_data
              \<longrightarrow> fst (snd (locate sample_env
                                (Map.empty(original_path_of sample_env ''png'' \<mapsto> original_data))
                                (original_path_of sample_env ''png'') None ''twitter''))
                    = full_image"
    by (simp add: l)
  have h5: "process_image_complete sample_env Map.empty ''PNG'' ''twitter'' ''png'' True False
              (3 / 10) None = (Inr r, snd run)"
    using eq by (simp add: run_def)
  from full_region_reports_smart_cropped
         [of sample_env "''PNG''" 100 100 "''RGB''" "''png''" Map.empty None "''twitter''"
             False "3 / 10" r "snd run", OF o _ _ h4 h5 e]
  have "r_smart_cropped r
       \<and> smart_crop_gemini sample_env 1 \<lparr>oid = 0, width = 100, height = 100, mode = ''RGB''\<rparr>
           full_image
           = Inr \<lparr>oid = 1, width = 100, height = 100, mode = fromarray_mode sample_env ''RGB''\<rparr>"
    by simp
  with o l f m show ?thesis by (simp add: r_def run_def)
qed

end
